theory Spec2Isabelle
  imports Complex_Main
begin

section \<open>Strings\<close>

text \<open>
  The raw completion text, the error messages and the labels of the keyframe table are
  modelled as \<^typ>\<open>string\<close>, a character standing for one UTF-16 code unit below 256, so
  that \<open>length\<close>, \<open>take\<close> and \<open>drop\<close> count what \<^verbatim>\<open>length\<close> and \<^verbatim>\<open>substring\<close> count.
  Within that range the white space of \<^verbatim>\<open>trim()\<close> and of the regular expression class
  \<^verbatim>\<open>\s\<close> is TAB, LF, VT, FF, CR, SPACE and NBSP. The free text of a request, the style
  names and the strings parsed from JSON are lists of code units of any value.
\<close>

definition is_space :: "char \<Rightarrow> bool" where
  "is_space c \<longleftrightarrow>
     c = CHR 0x09 \<or> c = CHR 0x0A \<or> c = CHR 0x0B \<or> c = CHR 0x0C \<or> c = CHR 0x0D \<or>
     c = CHR 0x20 \<or> c = CHR 0xA0"

text \<open>\<^verbatim>\<open>s.trim()\<close>\<close>

definition trim :: "string \<Rightarrow> string" where
  "trim s = rev (dropWhile is_space (rev (dropWhile is_space s)))"

text \<open>\<^verbatim>\<open>toLowerCase()\<close> on one code unit below 256: A-Z and the Latin-1 capitals.\<close>

definition to_lower :: "char \<Rightarrow> char" where
  "to_lower c =
     (let n = (of_char c :: nat) in
      if (65 \<le> n \<and> n \<le> 90) \<or> (192 \<le> n \<and> n \<le> 222 \<and> n \<noteq> 215)
      then char_of (n + 32) else c)"

text \<open>\<^verbatim>\<open>s.indexOf(c)\<close>, with \<open>None\<close> for \<^verbatim>\<open>-1\<close>.\<close>

fun index_of :: "char \<Rightarrow> string \<Rightarrow> nat option" where
  "index_of c [] = None"
| "index_of c (x # xs) =
     (if x = c then Some 0 else map_option Suc (index_of c xs))"

text \<open>\<^verbatim>\<open>s.endsWith('}')\<close>\<close>

definition ends_with :: "char \<Rightarrow> string \<Rightarrow> bool" where
  "ends_with c s \<longleftrightarrow> s \<noteq> [] \<and> last s = c"

text \<open>\<^verbatim>\<open>s.replace(/^```json\s*/i, '')\<close>: the fence marker, in any letter case, and the
  white space after it, only at the start of the text.\<close>

definition strip_fence_open :: "string \<Rightarrow> string" where
  "strip_fence_open s =
     (if map to_lower (take 7 s) = [CHR 0x60, CHR 0x60, CHR 0x60, CHR ''j'', CHR ''s'', CHR ''o'', CHR ''n'']
      then dropWhile is_space (drop 7 s) else s)"

text \<open>\<^verbatim>\<open>s.replace(/```$/i, '')\<close>: three back quotes at the very end of the text.\<close>

definition strip_fence_close :: "string \<Rightarrow> string" where
  "strip_fence_close s =
     (if 3 \<le> length s \<and> drop (length s - 3) s = [CHR 0x60, CHR 0x60, CHR 0x60]
      then take (length s - 3) s else s)"

text \<open>\<^verbatim>\<open>s.replace(/,$/, '')\<close>\<close>

definition strip_trailing_comma :: "string \<Rightarrow> string" where
  "strip_trailing_comma s = (if ends_with (CHR '','') s then butlast s else s)"

text \<open>\<^verbatim>\<open>s.replace(/\n/g, ' ')\<close> and \<^verbatim>\<open>s.replace(/\r/g, ' ')\<close>\<close>

definition replace_char :: "char \<Rightarrow> char \<Rightarrow> string \<Rightarrow> string" where
  "replace_char a b s = map (\<lambda>c. if c = a then b else c) s"

text \<open>
  A match of \<^verbatim>\<open>\s*X\<close> at the head of a text, \<open>X\<close> one character of a class: the white
  space is skipped greedily; as no character of the classes used below is white space,
  backtracking cannot give another match.
\<close>

definition after_spaces :: "(char \<Rightarrow> bool) \<Rightarrow> string \<Rightarrow> (char \<times> string) option" where
  "after_spaces P s =
     (case dropWhile is_space s of
        [] \<Rightarrow> None
      | d # ds \<Rightarrow> if P d then Some (d, ds) else None)"

lemma after_spaces_shorter [termination_simp]:
  "after_spaces P s = Some (d, ds) \<Longrightarrow> length ds < Suc (length s)"
proof -
  assume a: "after_spaces P s = Some (d, ds)"
  then have "dropWhile is_space s = d # ds"
    by (auto simp: after_spaces_def split: list.splits if_splits)
  then have "length (d # ds) \<le> length s"
    by (metis length_dropWhile_le)
  then show ?thesis by simp
qed

text \<open>\<^verbatim>\<open>s.replace(/,\s*([\]}])/g, '$1')\<close>: every comma that is followed, after optional
  white space, by a closing bracket or brace is removed together with that white space.\<close>

definition is_closer :: "char \<Rightarrow> bool" where
  "is_closer c \<longleftrightarrow> c = CHR '']'' \<or> c = CHR ''}''"

function drop_commas_before_closers :: "string \<Rightarrow> string" where
  "drop_commas_before_closers [] = []"
| "drop_commas_before_closers (c # cs) =
     (if c = CHR '',''
      then (case after_spaces is_closer cs of
              Some (d, ds) \<Rightarrow> d # drop_commas_before_closers ds
            | None \<Rightarrow> c # drop_commas_before_closers cs)
      else c # drop_commas_before_closers cs)"
  by pat_completeness auto
termination
  by (relation "measure length") (auto dest: after_spaces_shorter)

text \<open>\<^verbatim>\<open>s.replace(/"\s*:\s*"/g, '":"')\<close>\<close>

function tighten_colons :: "string \<Rightarrow> string" where
  "tighten_colons [] = []"
| "tighten_colons (c # cs) =
     (if c = CHR 0x22
      then (case after_spaces (\<lambda>d. d = CHR '':'') cs of
              Some (d, ds) \<Rightarrow>
                (case after_spaces (\<lambda>e. e = CHR 0x22) ds of
                   Some (e, es) \<Rightarrow> CHR 0x22 # CHR '':'' # CHR 0x22 # tighten_colons es
                 | None \<Rightarrow> c # tighten_colons cs)
            | None \<Rightarrow> c # tighten_colons cs)
      else c # tighten_colons cs)"
  by pat_completeness auto
termination
  by (relation "measure length") (auto dest!: after_spaces_shorter)

section \<open>The JSON repair engine: \<^verbatim>\<open>cleanJsonString\<close>\<close>

text \<open>
  The repository holds two revisions of \<^verbatim>\<open>cleanJsonString\<close> that differ in how the root is
  located and in whether the scan stops at the end of the root structure:
  \<^item> \<^verbatim>\<open>src/services/geminiService.ts\<close> (lines 46-104), embedded under the source's names;
  \<^item> the revision headed \<^verbatim>\<open>PRODUCTION LOCK v3.1\<close> (\<^verbatim>\<open>src/unnamed/part_008\<close>, lines 55-130),
    embedded under the same names with the suffix \<open>_v31\<close>.
  The local variables of the scanning loop are the fields of a record.
\<close>

record scan_state =
  braceCount :: int
  bracketCount :: int
  inString :: bool
  escaped :: bool
  lastSafePoint :: int

definition scan_init :: scan_state where
  "scan_init = \<lparr>braceCount = 0, bracketCount = 0, inString = False, escaped = False,
                 lastSafePoint = - 1\<rparr>"

text \<open>\<^verbatim>\<open>if (char === '"' && !escaped) inString = !inString;\<close>\<close>

definition toggle_quote :: "char \<Rightarrow> scan_state \<Rightarrow> scan_state" where
  "toggle_quote c st =
     (if c = CHR 0x22 \<and> \<not> escaped st then st\<lparr>inString := \<not> inString st\<rparr> else st)"

text \<open>The \<^verbatim>\<open>if / else if\<close> chain over the four structural characters.\<close>

definition count_brackets :: "char \<Rightarrow> scan_state \<Rightarrow> scan_state" where
  "count_brackets c st =
     (if c = CHR ''{'' then st\<lparr>braceCount := braceCount st + 1\<rparr>
      else if c = CHR ''}'' then st\<lparr>braceCount := braceCount st - 1\<rparr>
      else if c = CHR ''['' then st\<lparr>bracketCount := bracketCount st + 1\<rparr>
      else if c = CHR '']'' then st\<lparr>bracketCount := bracketCount st - 1\<rparr>
      else st)"

text \<open>Recording the last position that is safe to cut at.\<close>

definition mark_safe :: "nat \<Rightarrow> char \<Rightarrow> scan_state \<Rightarrow> scan_state" where
  "mark_safe i c st =
     (if braceCount st \<ge> 0 \<and> bracketCount st \<ge> 0
      then (if c = CHR ''}'' \<or> c = CHR '']'' \<or> c = CHR '',''
            then st\<lparr>lastSafePoint := int i\<rparr> else st)
      else st)"

text \<open>\<^verbatim>\<open>escaped = (char === '\\' && !escaped);\<close>\<close>

definition track_escape :: "char \<Rightarrow> scan_state \<Rightarrow> scan_state" where
  "track_escape c st = st\<lparr>escaped := (c = CHR 0x5C \<and> \<not> escaped st)\<rparr>"

text \<open>The body of the loop of \<^verbatim>\<open>geminiService.ts\<close> up to its final \<^verbatim>\<open>break\<close> test.\<close>

definition scan_step :: "nat \<Rightarrow> char \<Rightarrow> scan_state \<Rightarrow> scan_state" where
  "scan_step i c st =
     (let st1 = toggle_quote c st;
          st2 = (if \<not> inString st1 then mark_safe i c (count_brackets c st1) else st1)
      in track_escape c st2)"

text \<open>The loop \<^verbatim>\<open>for (let i = 0; i < cleaned.length; i++)\<close>, left by \<^verbatim>\<open>break\<close> as soon as a
  counter is negative.\<close>

fun scan :: "nat \<Rightarrow> string \<Rightarrow> scan_state \<Rightarrow> scan_state" where
  "scan i [] st = st"
| "scan i (c # cs) st =
     (let st' = scan_step i c st
      in if braceCount st' < 0 \<or> bracketCount st' < 0 then st' else scan (Suc i) cs st')"

text \<open>The second loop of the truncation branch: the balance of the cut text, string state
  ignored, and the closers appended for it, brackets first.\<close>

definition balance_of :: "char \<Rightarrow> char \<Rightarrow> string \<Rightarrow> int" where
  "balance_of opener closer s =
     fold (\<lambda>c n. if c = opener then n + 1 else if c = closer then n - 1 else n) s 0"

definition close_open_structures :: "string \<Rightarrow> string" where
  "close_open_structures cleaned =
     (let sBrace = balance_of (CHR ''{'') (CHR ''}'') cleaned;
          sBracket = balance_of (CHR ''['') (CHR '']'') cleaned
      in cleaned @ replicate (nat sBracket) (CHR '']'') @ replicate (nat sBrace) (CHR ''}''))"

text \<open>The body of \<^verbatim>\<open>if (braceCount > 0 || bracketCount > 0 || inString) { ... }\<close>.\<close>

definition repair_truncation :: "scan_state \<Rightarrow> string \<Rightarrow> string" where
  "repair_truncation st cleaned =
     (if lastSafePoint st \<noteq> - 1
      then close_open_structures
             (strip_trailing_comma (trim (take (nat (lastSafePoint st + 1)) cleaned)))
      else if \<not> ends_with (CHR ''}'') cleaned then cleaned @ [CHR ''}''] else cleaned)"

text \<open>The four replacements of the \<^verbatim>\<open>return\<close> statement.\<close>

definition post_process :: "string \<Rightarrow> string" where
  "post_process cleaned =
     tighten_colons
       (drop_commas_before_closers
          (replace_char (CHR 0x0D) (CHR 0x20) (replace_char (CHR 0x0A) (CHR 0x20) cleaned)))"

text \<open>Trimming and removal of the code fence, the first two statements on \<^verbatim>\<open>cleaned\<close>.\<close>

definition unwrap :: "string \<Rightarrow> string" where
  "unwrap text = trim (strip_fence_close (strip_fence_open (trim text)))"

text \<open>\<^verbatim>\<open>cleanJsonString\<close> of \<^verbatim>\<open>geminiService.ts\<close>. The argument is \<^verbatim>\<open>string | undefined\<close>;
  \<^verbatim>\<open>!text\<close> holds for \<^verbatim>\<open>undefined\<close> and for the empty string.\<close>

definition cleanJsonString :: "string option \<Rightarrow> string" where
  "cleanJsonString text =
     (case text of
        None \<Rightarrow> ''{}''
      | Some t \<Rightarrow>
          if t = [] then ''{}''
          else
            let cleaned = unwrap t in
            case index_of (CHR ''{'') cleaned of
              None \<Rightarrow> ''{}''
            | Some start \<Rightarrow>
                let cleaned = drop start cleaned;
                    st = scan 0 cleaned scan_init;
                    cleaned =
                      (if braceCount st > 0 \<or> bracketCount st > 0 \<or> inString st
                       then repair_truncation st cleaned else cleaned)
                in post_process cleaned)"

subsection \<open>Revision v3.1\<close>

text \<open>The root is the first \<^verbatim>\<open>{\<close> or \<^verbatim>\<open>[\<close>, whichever comes first.\<close>

definition find_root_v31 :: "string \<Rightarrow> nat option" where
  "find_root_v31 cleaned =
     (let startObj = index_of (CHR ''{'') cleaned;
          startArr = index_of (CHR ''['') cleaned
      in case startObj of
           Some so \<Rightarrow>
             (case startArr of
                None \<Rightarrow> Some so
              | Some sa \<Rightarrow> if so < sa then Some so else Some sa)
         | None \<Rightarrow> startArr)"

text \<open>
  The loop of v3.1. Inside \<^verbatim>\<open>if (!inString)\<close> it has one more statement: when both counters
  are zero at an index \<open>i > 0\<close>, the text is cut after \<open>i\<close>, \<^verbatim>\<open>finished\<close> is set and the loop
  is left at once. The result is the state and, when \<^verbatim>\<open>finished\<close>, the index of the cut.
\<close>

fun scan_v31 :: "nat \<Rightarrow> string \<Rightarrow> scan_state \<Rightarrow> scan_state \<times> nat option" where
  "scan_v31 i [] st = (st, None)"
| "scan_v31 i (c # cs) st =
     (let st1 = toggle_quote c st;
          st2 = (if \<not> inString st1 then mark_safe i c (count_brackets c st1) else st1)
      in if \<not> inString st1 \<and> braceCount st2 = 0 \<and> bracketCount st2 = 0 \<and> i > 0
         then (st2, Some i)
         else
           let st3 = track_escape c st2
           in if braceCount st3 < 0 \<or> bracketCount st3 < 0 then (st3, None)
              else scan_v31 (Suc i) cs st3)"

definition cleanJsonString_v31 :: "string option \<Rightarrow> string" where
  "cleanJsonString_v31 text =
     (case text of
        None \<Rightarrow> ''{}''
      | Some t \<Rightarrow>
          if t = [] then ''{}''
          else
            let cleaned = unwrap t in
            case find_root_v31 cleaned of
              None \<Rightarrow> ''{}''
            | Some start \<Rightarrow>
                let cleaned = drop start cleaned;
                    (st, cut) = scan_v31 0 cleaned scan_init;
                    finished = (cut \<noteq> None);
                    cleaned = (case cut of Some i \<Rightarrow> take (i + 1) cleaned | None \<Rightarrow> cleaned);
                    cleaned =
                      (if \<not> finished \<and> (braceCount st > 0 \<or> bracketCount st > 0 \<or> inString st)
                       then repair_truncation st cleaned else cleaned)
                in post_process cleaned)"

section \<open>\<^verbatim>\<open>JSON.parse\<close>\<close>

text \<open>
  \<^verbatim>\<open>JSON.parse\<close> is the built-in parser of the language, not code of the repository. It is
  modelled by a parser for the JSON grammar of ECMA-404, which returns \<open>None\<close> where
  \<^verbatim>\<open>JSON.parse\<close> throws a \<^verbatim>\<open>SyntaxError\<close>. Parsed strings are lists of UTF-16 code units, since
  an escape \<^verbatim>\<open>\uXXXX\<close> can denote any of them; numbers carry the exact value of their literal.
  \<open>JUndefined\<close> is the value \<^verbatim>\<open>undefined\<close>, which the parser never produces; members of an
  object are kept in the order of the text, a later duplicate key overriding an earlier one
  on lookup.
\<close>

datatype jsval =
    JUndefined
  | JNull
  | JBool bool
  | JNum rat
  | JStr "nat list"
  | JArr "jsval list"
  | JObj "(nat list \<times> jsval) list"

abbreviation u16 :: "string \<Rightarrow> nat list" where
  "u16 s \<equiv> map of_char s"

definition is_json_ws :: "char \<Rightarrow> bool" where
  "is_json_ws c \<longleftrightarrow> c = CHR 0x20 \<or> c = CHR 0x09 \<or> c = CHR 0x0A \<or> c = CHR 0x0D"

definition is_digit :: "char \<Rightarrow> bool" where
  "is_digit c \<longleftrightarrow> 48 \<le> (of_char c :: nat) \<and> (of_char c :: nat) \<le> 57"

definition digit_val :: "char \<Rightarrow> nat" where
  "digit_val c = of_char c - 48"

definition digits_val :: "string \<Rightarrow> nat" where
  "digits_val ds = foldl (\<lambda>n c. n * 10 + digit_val c) 0 ds"

definition hex_val :: "char \<Rightarrow> nat option" where
  "hex_val c =
     (let n = (of_char c :: nat) in
      if 48 \<le> n \<and> n \<le> 57 then Some (n - 48)
      else if 65 \<le> n \<and> n \<le> 70 then Some (n - 55)
      else if 97 \<le> n \<and> n \<le> 102 then Some (n - 87)
      else None)"

text \<open>The character after a backslash in a string, other than \<^verbatim>\<open>u\<close>.\<close>

definition unescape :: "char \<Rightarrow> nat option" where
  "unescape e =
     (if e = CHR 0x22 then Some 0x22
      else if e = CHR 0x5C then Some 0x5C
      else if e = CHR ''/'' then Some 0x2F
      else if e = CHR ''b'' then Some 0x08
      else if e = CHR ''f'' then Some 0x0C
      else if e = CHR ''n'' then Some 0x0A
      else if e = CHR ''r'' then Some 0x0D
      else if e = CHR ''t'' then Some 0x09
      else None)"

definition cons_unit :: "nat \<Rightarrow> (nat list \<times> string) option \<Rightarrow> (nat list \<times> string) option" where
  "cons_unit u r = map_option (\<lambda>(s, rest). (u # s, rest)) r"

text \<open>The rest of a string literal, after its opening quote: the decoded code units and the
  text after the closing quote.\<close>

fun lex_string :: "string \<Rightarrow> (nat list \<times> string) option" where
  "lex_string [] = None"
| "lex_string (c # cs) =
     (if c = CHR 0x22 then Some ([], cs)
      else if c = CHR 0x5C then
        (case cs of
           [] \<Rightarrow> None
         | e # es \<Rightarrow>
             if e = CHR ''u'' then
               (case es of
                  h1 # h2 # h3 # h4 # rest \<Rightarrow>
                    (case (hex_val h1, hex_val h2, hex_val h3, hex_val h4) of
                       (Some a, Some b, Some c, Some d) \<Rightarrow>
                         cons_unit (((a * 16 + b) * 16 + c) * 16 + d) (lex_string rest)
                     | _ \<Rightarrow> None)
                | _ \<Rightarrow> None)
             else
               (case unescape e of
                  Some u \<Rightarrow> cons_unit u (lex_string es)
                | None \<Rightarrow> None))
      else if (of_char c :: nat) < 0x20 then None
      else cons_unit (of_char c) (lex_string cs))"

text \<open>Numbers: \<^verbatim>\<open>-? (0 | [1-9][0-9]*) (. [0-9]+)? ([eE] [+-]? [0-9]+)?\<close>\<close>

definition lex_frac :: "string \<Rightarrow> (string \<times> string) option" where
  "lex_frac s =
     (case s of
        [] \<Rightarrow> Some ([], [])
      | c # r \<Rightarrow>
          if c = CHR ''.''
          then (if takeWhile is_digit r = [] then None
                else Some (takeWhile is_digit r, dropWhile is_digit r))
          else Some ([], s))"

definition lex_sign :: "string \<Rightarrow> int \<times> string" where
  "lex_sign r =
     (case r of
        [] \<Rightarrow> (1, r)
      | x # r' \<Rightarrow> if x = CHR ''+'' then (1, r') else if x = CHR ''-'' then (- 1, r') else (1, r))"

definition lex_exp :: "string \<Rightarrow> (int \<times> string) option" where
  "lex_exp s =
     (case s of
        [] \<Rightarrow> Some (0, [])
      | c # r \<Rightarrow>
          if c = CHR ''e'' \<or> c = CHR ''E''
          then (let (sg, r1) = lex_sign r in
                if takeWhile is_digit r1 = [] then None
                else Some (sg * int (digits_val (takeWhile is_digit r1)), dropWhile is_digit r1))
          else Some (0, s))"

definition pow10 :: "int \<Rightarrow> rat" where
  "pow10 e = (if e \<ge> 0 then 10 ^ nat e else 1 / 10 ^ nat (- e))"

definition lex_int :: "string \<Rightarrow> string" where
  "lex_int s =
     (case s of
        [] \<Rightarrow> []
      | d # r \<Rightarrow> if d = CHR ''0'' then [d] else takeWhile is_digit s)"

definition lex_number :: "string \<Rightarrow> (rat \<times> string) option" where
  "lex_number s =
     (let neg = (s \<noteq> [] \<and> hd s = CHR ''-'');
          s1 = (if neg then tl s else s);
          ip = lex_int s1
      in if ip = [] then None
         else
           case lex_frac (drop (length ip) s1) of
             None \<Rightarrow> None
           | Some (fp, s3) \<Rightarrow>
               (case lex_exp s3 of
                  None \<Rightarrow> None
                | Some (ex, s4) \<Rightarrow>
                    Some ((if neg then - 1 else 1) * of_nat (digits_val (ip @ fp))
                            * pow10 (ex - int (length fp)), s4)))"

definition lex_literal :: "string \<Rightarrow> (jsval \<times> string) option" where
  "lex_literal s =
     (if take 4 s = ''true'' then Some (JBool True, drop 4 s)
      else if take 5 s = ''false'' then Some (JBool False, drop 5 s)
      else if take 4 s = ''null'' then Some (JNull, drop 4 s)
      else None)"

definition lex_scalar :: "string \<Rightarrow> (jsval \<times> string) option" where
  "lex_scalar s =
     (case lex_literal s of
        Some r \<Rightarrow> Some r
      | None \<Rightarrow> map_option (\<lambda>(n, rest). (JNum n, rest)) (lex_number s))"

text \<open>Every lexer consumes at least one character of a token it recognises.\<close>

lemma lex_string_shorter: "lex_string s = Some (v, r) \<Longrightarrow> length r < length s"
proof (induction s arbitrary: v r rule: length_induct)
  case (1 s)
  have IH: "\<And>ys v r. length ys < length s \<Longrightarrow> lex_string ys = Some (v, r) \<Longrightarrow> length r < length ys"
    using "1.IH" by blast
  show ?case
  proof (cases s)
    case Nil
    with "1.prems" show ?thesis by simp
  next
    case (Cons c cs)
    with "1.prems" show ?thesis
      by (auto simp: cons_unit_def split: if_splits list.splits option.splits prod.splits
               dest!: IH [rotated])
  qed
qed

lemma lex_frac_shorter: "lex_frac s = Some (fp, r) \<Longrightarrow> length r \<le> length s"
  by (auto simp: lex_frac_def split: list.splits if_splits
           intro: le_SucI length_dropWhile_le)

lemma lex_sign_shorter: "lex_sign s = (sg, r) \<Longrightarrow> length r \<le> length s"
  by (auto simp: lex_sign_def split: list.splits if_splits)

lemma lex_exp_shorter: "lex_exp s = Some (ex, r) \<Longrightarrow> length r \<le> length s"
proof -
  assume a: "lex_exp s = Some (ex, r)"
  show ?thesis
  proof (cases s)
    case Nil
    with a show ?thesis by (simp add: lex_exp_def)
  next
    case (Cons c cs)
    obtain sg r1 where sg: "lex_sign cs = (sg, r1)" by (cases "lex_sign cs")
    then have "length r1 \<le> length cs" by (rule lex_sign_shorter)
    moreover have "length (dropWhile is_digit r1) \<le> length r1" by (rule length_dropWhile_le)
    ultimately show ?thesis using a Cons sg
      by (auto simp: lex_exp_def split: if_splits)
  qed
qed

lemma lex_int_prefix: "lex_int s \<noteq> [] \<Longrightarrow> length (drop (length (lex_int s)) s) < length s"
proof -
  assume a: "lex_int s \<noteq> []"
  have "length (lex_int s) \<le> length s"
    by (auto simp: lex_int_def split: list.splits intro: le_SucI)
       (metis length_takeWhile_le length_Cons)
  with a show ?thesis by (cases s) (auto simp: lex_int_def)
qed

lemma lex_number_shorter: "lex_number s = Some (n, r) \<Longrightarrow> length r < length s"
proof -
  assume a: "lex_number s = Some (n, r)"
  define s1 where "s1 = (if s \<noteq> [] \<and> hd s = CHR ''-'' then tl s else s)"
  have s1: "length s1 \<le> length s" by (simp add: s1_def)
  from a have ne: "lex_int s1 \<noteq> []"
    by (auto simp: lex_number_def Let_def s1_def split: if_splits)
  from a obtain fp s3 ex where f: "lex_frac (drop (length (lex_int s1)) s1) = Some (fp, s3)"
    and e: "lex_exp s3 = Some (ex, r)"
    by (auto simp: lex_number_def Let_def s1_def split: if_splits option.splits)
  from lex_int_prefix [OF ne] lex_frac_shorter [OF f] lex_exp_shorter [OF e] s1
  show ?thesis by simp
qed

lemma lex_literal_shorter: "lex_literal s = Some (v, r) \<Longrightarrow> length r < length s"
  by (cases s) (auto simp: lex_literal_def split: if_splits)

lemma lex_scalar_shorter: "lex_scalar s = Some (v, r) \<Longrightarrow> length r < length s"
  by (auto simp: lex_scalar_def split: option.splits dest: lex_literal_shorter lex_number_shorter)

text \<open>
  The parser proper: a stack of the arrays and objects that are open, and what the grammar
  expects next. A frame of an object keeps the key whose value is being read.
\<close>

datatype frame =
    InArr "jsval list"
  | InObj "(nat list \<times> jsval) list" "nat list"

datatype expect =
    WantValue bool  \<comment> \<open>a value; \<open>True\<close>: just after \<^verbatim>\<open>[\<close>, where \<^verbatim>\<open>]\<close> may close the empty array\<close>
  | WantKey bool  \<comment> \<open>a key; \<open>True\<close>: just after \<^verbatim>\<open>{\<close>, where \<^verbatim>\<open>}\<close> may close the empty object\<close>
  | WantColon
  | WantCommaOrClose
  | Finished jsval

text \<open>A value is complete: it becomes an element, a member, or the result.\<close>

fun complete :: "jsval \<Rightarrow> frame list \<Rightarrow> expect \<times> frame list" where
  "complete v [] = (Finished v, [])"
| "complete v (InArr es # stk) = (WantCommaOrClose, InArr (es @ [v]) # stk)"
| "complete v (InObj ms k # stk) = (WantCommaOrClose, InObj (ms @ [(k, v)]) k # stk)"

function run :: "expect \<Rightarrow> frame list \<Rightarrow> string \<Rightarrow> jsval option" where
  "run e stk [] = (case e of Finished v \<Rightarrow> Some v | _ \<Rightarrow> None)"
| "run e stk (c # cs) =
     (if is_json_ws c then run e stk cs
      else
        case e of
          Finished v \<Rightarrow> None
        | WantColon \<Rightarrow> if c = CHR '':'' then run (WantValue False) stk cs else None
        | WantCommaOrClose \<Rightarrow>
            (case stk of
               [] \<Rightarrow> None
             | InArr es # stk' \<Rightarrow>
                 if c = CHR '','' then run (WantValue False) stk cs
                 else if c = CHR '']''
                 then run (fst (complete (JArr es) stk')) (snd (complete (JArr es) stk')) cs
                 else None
             | InObj ms k # stk' \<Rightarrow>
                 if c = CHR '','' then run (WantKey False) stk cs
                 else if c = CHR ''}''
                 then run (fst (complete (JObj ms) stk')) (snd (complete (JObj ms) stk')) cs
                 else None)
        | WantKey may_close \<Rightarrow>
            (case stk of
               InObj ms k # stk' \<Rightarrow>
                 if c = CHR 0x22
                 then (case lex_string cs of
                         Some (key, rest) \<Rightarrow> run WantColon (InObj ms key # stk') rest
                       | None \<Rightarrow> None)
                 else if c = CHR ''}'' \<and> may_close
                 then run (fst (complete (JObj ms) stk')) (snd (complete (JObj ms) stk')) cs
                 else None
             | _ \<Rightarrow> None)
        | WantValue may_close \<Rightarrow>
            if c = CHR ''{'' then run (WantKey True) (InObj [] [] # stk) cs
            else if c = CHR ''['' then run (WantValue True) (InArr [] # stk) cs
            else if c = CHR '']'' \<and> may_close
            then (case stk of
                    InArr es # stk' \<Rightarrow>
                      run (fst (complete (JArr es) stk')) (snd (complete (JArr es) stk')) cs
                  | _ \<Rightarrow> None)
            else if c = CHR 0x22
            then (case lex_string cs of
                    Some (str, rest) \<Rightarrow>
                      run (fst (complete (JStr str) stk)) (snd (complete (JStr str) stk)) rest
                  | None \<Rightarrow> None)
            else (case lex_scalar (c # cs) of
                    Some (v, rest) \<Rightarrow> run (fst (complete v stk)) (snd (complete v stk)) rest
                  | None \<Rightarrow> None))"
  by pat_completeness auto
termination
  by (relation "measure (\<lambda>(e, stk, s). length s)")
     (auto dest: lex_string_shorter lex_scalar_shorter)

definition json_parse :: "string \<Rightarrow> jsval option" where
  "json_parse s = run (WantValue False) [] s"

text \<open>\<^verbatim>\<open>v[key]\<close> for a key that no built-in prototype defines: the own member of an object,
  \<^verbatim>\<open>undefined\<close> otherwise. (On \<^verbatim>\<open>null\<close> and \<^verbatim>\<open>undefined\<close> the access throws; the callers below
  test for that first.)\<close>

fun member :: "jsval \<Rightarrow> string \<Rightarrow> jsval" where
  "member (JObj ms) key = (case map_of (rev ms) (u16 key) of Some v \<Rightarrow> v | None \<Rightarrow> JUndefined)"
| "member v key = JUndefined"

section \<open>The environment\<close>

text \<open>
  What the code takes from the JavaScript engine it runs on, and from the process:

  \<^item> \<open>apiKey\<close>: \<^verbatim>\<open>process.env.API_KEY\<close>;
  \<^item> \<open>null_read_message\<close>: the message of the \<^verbatim>\<open>TypeError\<close> thrown when the named property
    of \<^verbatim>\<open>null\<close> is read;
  \<^item> \<open>unicode_lower\<close>: \<^verbatim>\<open>toLowerCase()\<close> on a string that holds a code unit above 255, where
    the result is given by the case mappings of the Unicode version of the engine;
  \<^item> \<open>builtin_member\<close>: what reading the property \<open>key\<close> of the built-in that every object
    literal inherits under \<open>name\<close> gives, as in \<^verbatim>\<open>({})["toString"]["length"]\<close>: a falsy
    value (\<^verbatim>\<open>undefined\<close> when there is no such property, or \<^verbatim>\<open>0\<close>, \<^verbatim>\<open>null\<close>, \<^verbatim>\<open>""\<close>), a
    truthy value, or a \<^verbatim>\<open>TypeError\<close> thrown by an accessor, as in
    \<^verbatim>\<open>({})["constructor"]["caller"]\<close>.
\<close>

datatype builtin_read = Read_falsy | Read_truthy | Read_throws

record engine =
  apiKey :: "string option"
  null_read_message :: "string \<Rightarrow> string"
  unicode_lower :: "nat list \<Rightarrow> nat list"
  builtin_member :: "string \<Rightarrow> string \<Rightarrow> builtin_read"

section \<open>Property lookup on object literals\<close>

text \<open>
  The keyframe table and the style presets are object literals used as dictionaries:
  \<^verbatim>\<open>table[key]\<close> finds an own property, and otherwise whatever the object inherits from
  \<^verbatim>\<open>Object.prototype\<close>. The names below are the properties of \<^verbatim>\<open>Object.prototype\<close>; each is a
  built-in function or object, hence neither \<^verbatim>\<open>undefined\<close> nor falsy.
\<close>

definition object_prototype_keys :: "string list" where
  "object_prototype_keys =
     [''constructor'', ''__proto__'', ''hasOwnProperty'', ''isPrototypeOf'',
      ''propertyIsEnumerable'', ''toLocaleString'', ''toString'', ''valueOf'',
      ''__defineGetter__'', ''__defineSetter__'', ''__lookupGetter__'', ''__lookupSetter__'']"

datatype 'a property = Own 'a | Inherited | Absent

definition get_property :: "('k \<times> 'a) list \<Rightarrow> 'k list \<Rightarrow> 'k \<Rightarrow> 'a property" where
  "get_property obj inherited key =
     (case map_of obj key of
        Some v \<Rightarrow> Own v
      | None \<Rightarrow> if key \<in> set inherited then Inherited else Absent)"

section \<open>The keyframe count table: \<^verbatim>\<open>getRequiredKeyframeCount\<close>\<close>

text \<open>The table of \<^verbatim>\<open>geminiService.ts\<close> (lines 107-114), keyed by the labels as displayed.\<close>

definition keyframe_table :: "(string \<times> (string \<times> nat) list) list" where
  "keyframe_table =
     [(''30 Seconds'', [(''Concise'', 4), (''Standard'', 5), (''Detailed'', 6)]),
      (''1 Minute'', [(''Concise'', 6), (''Standard'', 8), (''Detailed'', 10)]),
      (''3 Minutes'', [(''Concise'', 10), (''Standard'', 14), (''Detailed'', 18)]),
      (''5 Minutes'', [(''Concise'', 14), (''Standard'', 20), (''Detailed'', 26)]),
      (''8 Minutes'', [(''Concise'', 18), (''Standard'', 26), (''Detailed'', 34)]),
      (''10 Minutes'', [(''Concise'', 20), (''Standard'', 30), (''Detailed'', 40)])]"

text \<open>The table of v3.1 (lines 135-142), keyed by normalised labels.\<close>

definition keyframe_table_v31 :: "(string \<times> (string \<times> nat) list) list" where
  "keyframe_table_v31 =
     [(''30_seconds'', [(''concise'', 4), (''standard'', 5), (''detailed'', 6)]),
      (''1_minute'', [(''concise'', 6), (''standard'', 8), (''detailed'', 10)]),
      (''3_minutes'', [(''concise'', 10), (''standard'', 14), (''detailed'', 18)]),
      (''5_minutes'', [(''concise'', 14), (''standard'', 20), (''detailed'', 26)]),
      (''8_minutes'', [(''concise'', 18), (''standard'', 26), (''detailed'', 34)]),
      (''10_minutes'', [(''concise'', 20), (''standard'', 30), (''detailed'', 40)])]"

text \<open>
  What a call returns: a number, which is an entry of the table or the default; or the
  built-in reached from \<^verbatim>\<open>Object.prototype\<close> by the given property names, returned as it is
  because it is truthy; or nothing, a \<^verbatim>\<open>TypeError\<close> being thrown.
\<close>

datatype keyframes = Count nat | Builtin "string list" | TypeError

text \<open>
  \<^verbatim>\<open>table[duration]?.[density] || 8\<close>.

  \<^item> The duration is a key of the table: the density is looked up in that row. A column
    gives its entry (the default if the entry were 0); a name that the row inherits gives
    the built-in of that name, which is truthy; any other name gives \<^verbatim>\<open>undefined\<close>, hence
    the default.
  \<^item> The duration is no key of the table but a name that the table inherits: the density is
    read from that built-in, and the engine decides. No built-in has a property named like
    a column of the table, so a density that is a column gives \<^verbatim>\<open>undefined\<close>, hence the
    default.
  \<^item> Otherwise \<^verbatim>\<open>table[duration]\<close> is \<^verbatim>\<open>undefined\<close>, and so is the optional member: the
    default.
\<close>

definition lookup_keyframes ::
  "engine \<Rightarrow> (string \<times> (string \<times> nat) list) list \<Rightarrow> string \<Rightarrow> string \<Rightarrow> keyframes" where
  "lookup_keyframes eng table duration density =
     (case get_property table object_prototype_keys duration of
        Own row \<Rightarrow>
          (case get_property row object_prototype_keys density of
             Own n \<Rightarrow> Count (if n = 0 then 8 else n)
           | Absent \<Rightarrow> Count 8
           | Inherited \<Rightarrow> Builtin [density])
      | Absent \<Rightarrow> Count 8
      | Inherited \<Rightarrow>
          if density \<in> set (concat (map (\<lambda>(d, row). map fst row) table)) then Count 8
          else (case builtin_member eng duration density of
                  Read_falsy \<Rightarrow> Count 8
                | Read_truthy \<Rightarrow> Builtin [duration, density]
                | Read_throws \<Rightarrow> TypeError))"

definition getRequiredKeyframeCount :: "engine \<Rightarrow> string \<Rightarrow> string \<Rightarrow> keyframes" where
  "getRequiredKeyframeCount eng duration density =
     lookup_keyframes eng keyframe_table duration density"

text \<open>\<^verbatim>\<open>s.replace(/\s+/g, '_')\<close>: every maximal run of white space becomes one underscore.\<close>

function underscore_spaces :: "string \<Rightarrow> string" where
  "underscore_spaces [] = []"
| "underscore_spaces (c # cs) =
     (if is_space c then CHR ''_'' # underscore_spaces (dropWhile is_space cs)
      else c # underscore_spaces cs)"
  by pat_completeness auto
termination
  by (relation "measure length") (auto intro: le_imp_less_Suc length_dropWhile_le)

text \<open>v3.1: the duration is lower-cased and its white space replaced, the density is only
  lower-cased.\<close>

definition getRequiredKeyframeCount_v31 :: "engine \<Rightarrow> string \<Rightarrow> string \<Rightarrow> keyframes" where
  "getRequiredKeyframeCount_v31 eng duration density =
     (let dKey = underscore_spaces (map to_lower duration);
          denKey = map to_lower density
      in lookup_keyframes eng keyframe_table_v31 dKey denKey)"

section \<open>The request and the production package\<close>

text \<open>The types of \<^verbatim>\<open>types.ts\<close> (\<^verbatim>\<open>src/unnamed/part_000\<close>). The script, the character
  description and the model name are free text, and the style is one of the names of
  \<^verbatim>\<open>VISUAL_STYLE_PRESETS\<close>, four of which hold a code unit above 255: these are lists of
  code units. The duration is the value of a \<^verbatim>\<open>select\<close> element of \<^verbatim>\<open>InputForm.tsx\<close>.\<close>

datatype SceneDensity = Concise | Standard | Detailed

fun density_label :: "SceneDensity \<Rightarrow> string" where
  "density_label Concise = ''Concise''"
| "density_label Standard = ''Standard''"
| "density_label Detailed = ''Detailed''"

datatype AspectRatio = Ratio_16_9 | Ratio_9_16

record UserInput =
  script :: "nat list"
  visualStyle :: "nat list"
  sceneDensity :: SceneDensity
  aspectRatio :: AspectRatio
  characterDescription :: "nat list"
  videoDuration :: string
  modelEngine :: "nat list"

text \<open>The options that \<^verbatim>\<open>InputForm.tsx\<close> offers for the duration (lines 51-58).\<close>

definition duration_options :: "string list" where
  "duration_options =
     [''30 Seconds'', ''1 Minute'', ''3 Minutes'', ''5 Minutes'', ''8 Minutes'', ''10 Minutes'']"

text \<open>
  The fields that the package takes from the parsed completion are not checked against
  their declared types, so they hold whatever value the completion held: they are
  \<^typ>\<open>jsval\<close>s. The fields copied from the request keep the request's types.
\<close>

record Metadata =
  md_topic :: jsval
  md_mood :: jsval
  md_visualStyle :: "nat list"
  md_aspectRatio :: AspectRatio
  md_duration :: string

record ProductionPackage =
  metadata :: Metadata
  seo :: jsval
  story :: jsval
  titles :: jsval
  visualPrompts :: "jsval list"
  audioMap :: "jsval list"
  cst :: string
  bst :: string
  gst :: string
  vst :: jsval

record StylePreset =
  image_style :: string
  video_style :: string
  recommended_vst :: string

text \<open>\<^verbatim>\<open>VISUAL_STYLE_PRESETS\<close>, the same in both revisions. Four names hold the dash U+2014, so
  the names are lists of code units.\<close>

definition VISUAL_STYLE_PRESETS :: "(nat list \<times> StylePreset) list" where
  "VISUAL_STYLE_PRESETS =
    [
     (u16 ''Stickman '' @ [0x2014] @ u16 '' 2D Classic'',
      \<lparr>image_style = ''2D classic stickman animation, clean vector linework, flat shapes'',
       video_style = ''2D classic stickman motion, smooth tweened animation, stable linework'',
       recommended_vst = ''VST_01 Clean Digital Cinema''\<rparr>),
     (u16 ''Stickman '' @ [0x2014] @ u16 '' Blueprint'',
      \<lparr>image_style = ''blueprint schematic style, cyan grid, white technical line drawings'',
       video_style = ''blueprint line-reveal animation, technical callout pop-ins'',
       recommended_vst = ''VST_14 Matte Minimalist''\<rparr>),
     (u16 ''Stickman '' @ [0x2014] @ u16 '' Chalkboard'',
      \<lparr>image_style = ''chalkboard sketch style, rough chalk strokes, dusty smudges'',
       video_style = ''chalk-writing reveal animation, smudge transitions, chalk dust'',
       recommended_vst = ''VST_05 Overcast Documentary''\<rparr>),
     (u16 ''Stickman '' @ [0x2014] @ u16 '' 3D Render'',
      \<lparr>image_style = ''simple 3D stick-figure render, smooth plastic, soft studio light'',
       video_style = ''simple 3D character animation, smooth keyframed motion'',
       recommended_vst = ''VST_09 High-Key Commercial''\<rparr>),
     (u16 ''Clay Animation'',
      \<lparr>image_style = ''clay animation style, handcrafted clay textures, fingerprints'',
       video_style = ''claymation motion, stop-motion jitter, tactile deformations'',
       recommended_vst = ''VST_02 Warm Indie Drama''\<rparr>),
     (u16 ''Studio Ghibli'',
      \<lparr>image_style = ''Studio Ghibli aesthetic, hand-painted watercolor anime, soft edges'',
       video_style = ''painterly animation feel, gentle parallax pans, soft light transitions'',
       recommended_vst = ''VST_08 Soft Pastel Dream''\<rparr>),
     (u16 ''Retro Anime'',
      \<lparr>image_style = ''retro 90s anime cel style, ink lines, limited shading, halation'',
       video_style = ''retro cel animation, limited-frame cadence, classic anime holds'',
       recommended_vst = ''VST_06 Retro 35mm Film''\<rparr>),
     (u16 ''Pixar Style'',
      \<lparr>image_style = ''stylized 3D family animation look, expressive faces, global illumination'',
       video_style = ''stylized 3D animation, smooth character arcs, cinematic DOF'',
       recommended_vst = ''VST_09 High-Key Commercial''\<rparr>),
     (u16 ''Stop-motion Animation'',
      \<lparr>image_style = ''miniature practical set, handmade props, tactile textures'',
       video_style = ''stop-motion feel, frame jitter, miniature parallax'',
       recommended_vst = ''VST_07 Vintage 16mm Home-Movie''\<rparr>),
     (u16 ''Cutout Animation'',
      \<lparr>image_style = ''2D cutout puppet look, layered paper shapes, crisp silhouettes'',
       video_style = ''cutout puppet motion, hinge-like limb movement, layered parallax'',
       recommended_vst = ''VST_14 Matte Minimalist''\<rparr>),
     (u16 ''3D CGI Animation'',
      \<lparr>image_style = ''high quality 3D CGI frame, detailed materials, cinematic lighting'',
       video_style = ''3D CGI cinematic, smooth camera moves, realistic motion blur'',
       recommended_vst = ''VST_11 Anamorphic Cinematic''\<rparr>),
     (u16 ''Cinematic 8K'',
      \<lparr>image_style = ''ultra-detailed cinematic realism, crisp textures, shallow DOF'',
       video_style = ''cinematic realism, slow dolly tracking, realistic motion blur'',
       recommended_vst = ''VST_11 Anamorphic Cinematic''\<rparr>),
     (u16 ''Documentary'',
      \<lparr>image_style = ''documentary realism, natural lighting, candid framing'',
       video_style = ''documentary camera language, handheld shake, natural ambience'',
       recommended_vst = ''VST_05 Overcast Documentary''\<rparr>),
     (u16 ''Cyberpunk'',
      \<lparr>image_style = ''cyberpunk neon city, wet reflective streets, magenta/cyan practicals'',
       video_style = ''neon noir cinematic, slow tracking, volumetric haze motion'',
       recommended_vst = ''VST_12 Neon Night City''\<rparr>),
     (u16 ''Film Noir'',
      \<lparr>image_style = ''film noir, classic monochrome, hard shadows, dramatic contrast'',
       video_style = ''noir pacing, slow push-in, chiaroscuro lighting, smoke drift'',
       recommended_vst = ''VST_13 Black & White Classic''\<rparr>),
     (u16 ''Low-Key Thriller'',
      \<lparr>image_style = ''low-key thriller lighting, deep shadows, tight contrast'',
       video_style = ''suspense pacing, slow dolly in, handheld tension'',
       recommended_vst = ''VST_10 Low-Key Thriller''\<rparr>)]"

text \<open>\<^verbatim>\<open>VISUAL_STYLE_PRESETS[input.visualStyle] || VISUAL_STYLE_PRESETS["Studio Ghibli"]\<close>. A name
  inherited from \<^verbatim>\<open>Object.prototype\<close> yields a built-in, which is truthy and has none of the
  three fields: that is \<open>None\<close>.\<close>

definition resolve_style :: "nat list \<Rightarrow> StylePreset option" where
  "resolve_style name =
     (case get_property VISUAL_STYLE_PRESETS (map u16 object_prototype_keys) name of
        Own p \<Rightarrow> Some p
      | Inherited \<Rightarrow> None
      | Absent \<Rightarrow> map_of VISUAL_STYLE_PRESETS (u16 ''Studio Ghibli''))"

text \<open>\<^verbatim>\<open>styleData.recommended_vst\<close>\<close>

definition preset_vst :: "StylePreset option \<Rightarrow> jsval" where
  "preset_vst styleData =
     (case styleData of Some p \<Rightarrow> JStr (u16 (recommended_vst p)) | None \<Rightarrow> JUndefined)"

section \<open>Values: truthiness and member access\<close>

text \<open>A number literal denotes the double nearest to it, which is zero exactly when the
  literal's magnitude is at most half the least positive double, \<open>2\<^sup>-\<^sup>1\<^sup>0\<^sup>7\<^sup>5\<close>.\<close>

fun truthy :: "jsval \<Rightarrow> bool" where
  "truthy JUndefined = False"
| "truthy JNull = False"
| "truthy (JBool b) = b"
| "truthy (JNum r) = (\<bar>r\<bar> > 1 / 2 ^ 1075)"
| "truthy (JStr s) = (s \<noteq> [])"
| "truthy (JArr xs) = True"
| "truthy (JObj ms) = True"

text \<open>\<^verbatim>\<open>a || b\<close>\<close>

definition or_else :: "jsval \<Rightarrow> jsval \<Rightarrow> jsval" where
  "or_else a b = (if truthy a then a else b)"

text \<open>\<^verbatim>\<open>v?.key\<close>\<close>

fun opt_member :: "jsval \<Rightarrow> string \<Rightarrow> jsval" where
  "opt_member JNull key = JUndefined"
| "opt_member JUndefined key = JUndefined"
| "opt_member v key = member v key"

text \<open>\<^verbatim>\<open>Array.isArray(v) ? v : []\<close>\<close>

fun array_or_empty :: "jsval \<Rightarrow> jsval list" where
  "array_or_empty (JArr xs) = xs"
| "array_or_empty v = []"

text \<open>The literal that stands in for a missing \<^verbatim>\<open>seo\<close>.\<close>

definition default_seo :: jsval where
  "default_seo =
     JObj [(u16 ''bestTitle'', JStr (u16 ''Untitled'')),
           (u16 ''altTitles'', JArr []),
           (u16 ''videoDescription'', JStr []),
           (u16 ''tags'', JStr []),
           (u16 ''hashtags'', JStr []),
           (u16 ''thumbnailPrompt'', JStr []),
           (u16 ''sunoPrompt'', JStr [])]"

section \<open>Errors: \<^verbatim>\<open>handleApiError\<close>\<close>

text \<open>
  An exception raised inside the \<^verbatim>\<open>try\<close> block is an \<^verbatim>\<open>Error\<close> with a message. What
  \<^verbatim>\<open>generateMoviePackage\<close> finally throws is the \<^verbatim>\<open>Error\<close> built by \<^verbatim>\<open>handleApiError\<close>, whose
  message may quote a string parsed from JSON, hence a list of code units; the revision of
  \<^verbatim>\<open>geminiService.ts\<close> also dispatches a window event for an invalid key.
\<close>

datatype failure = Failure (failure_message: "nat list") (key_invalid_event: bool)

text \<open>\<^verbatim>\<open>s.includes(needle)\<close>\<close>

fun js_includes :: "'a list \<Rightarrow> 'a list \<Rightarrow> bool" where
  "js_includes [] needle = (needle = [])"
| "js_includes (x # xs) needle = (take (length needle) (x # xs) = needle \<or> js_includes xs needle)"

text \<open>\<^verbatim>\<open>toLowerCase()\<close> on a string parsed from JSON. When every code unit is below 256 the
  result is found unit by unit, A-Z and the Latin-1 capitals moving up by 32; otherwise it
  is what the Unicode tables of the engine give.\<close>

definition to_lower16 :: "nat \<Rightarrow> nat" where
  "to_lower16 n =
     (if (65 \<le> n \<and> n \<le> 90) \<or> (192 \<le> n \<and> n \<le> 222 \<and> n \<noteq> 215) then n + 32 else n)"

definition toLowerCase :: "engine \<Rightarrow> nat list \<Rightarrow> nat list" where
  "toLowerCase eng s =
     (if list_all (\<lambda>u. u < 256) s then map to_lower16 s else unicode_lower eng s)"

text \<open>The computation of \<^verbatim>\<open>msg\<close>: a message that starts with a brace is parsed, and the
  value of \<^verbatim>\<open>parsed?.error?.message\<close> is used when it is truthy; a parse error, and the
  \<^verbatim>\<open>TypeError\<close> of calling \<^verbatim>\<open>toLowerCase\<close> on a value that is not a string, are caught and
  give the lower-cased message itself.\<close>

definition error_text :: "engine \<Rightarrow> string \<Rightarrow> nat list" where
  "error_text eng message =
     (if message \<noteq> [] \<and> hd message = CHR ''{''
      then (case json_parse message of
              None \<Rightarrow> u16 (map to_lower message)
            | Some parsed \<Rightarrow>
                (case or_else (opt_member (opt_member parsed ''error'') ''message'')
                              (JStr (u16 message)) of
                   JStr s \<Rightarrow> toLowerCase eng s
                 | _ \<Rightarrow> u16 (map to_lower message)))
      else u16 (map to_lower message))"

definition mentions_bad_key :: "nat list \<Rightarrow> bool" where
  "mentions_bad_key msg \<longleftrightarrow>
     js_includes msg (u16 ''401'') \<or> js_includes msg (u16 ''403'') \<or>
     js_includes msg (u16 ''api key not valid'') \<or> js_includes msg (u16 ''invalid api key'')"

definition mentions_quota :: "nat list \<Rightarrow> bool" where
  "mentions_quota msg \<longleftrightarrow>
     js_includes msg (u16 ''429'') \<or> js_includes msg (u16 ''quota'') \<or>
     js_includes msg (u16 ''limit'') \<or> js_includes msg (u16 ''resource_exhausted'')"

definition engine_failure :: "string \<Rightarrow> nat list \<Rightarrow> failure" where
  "engine_failure task msg =
     Failure (u16 ''Engine Failure ['' @ u16 task @ u16 '']: '' @
              (if msg = [] then u16 ''Unknown failure'' else msg)) False"

text \<open>\<^verbatim>\<open>handleApiError\<close> of \<^verbatim>\<open>geminiService.ts\<close> (lines 16-41)\<close>

definition handleApiError :: "engine \<Rightarrow> string \<Rightarrow> string \<Rightarrow> failure" where
  "handleApiError eng message task =
     (let msg = error_text eng message in
      if mentions_bad_key msg
      then Failure (u16 ''API Key not valid. Please check your Engine Settings.'') True
      else if mentions_quota msg
      then Failure (u16 ''QUOTA EXHAUSTED: Your API key has reached its limit. Wait 60s or switch to a paid key.'') False
      else engine_failure task msg)"

text \<open>\<^verbatim>\<open>handleApiError\<close> of v3.1 (lines 26-50): the quota test comes first, no event.\<close>

definition handleApiError_v31 :: "engine \<Rightarrow> string \<Rightarrow> string \<Rightarrow> failure" where
  "handleApiError_v31 eng message task =
     (let msg = error_text eng message in
      if mentions_quota msg
      then Failure (u16 ''QUOTA EXHAUSTED: Your API key has reached its limit. Wait 60s or switch to a paid key.'') False
      else if mentions_bad_key msg
      then Failure (u16 ''API Key not valid. Please check your configuration.'') False
      else engine_failure task msg)"

section \<open>\<^verbatim>\<open>generateMoviePackage\<close>\<close>

text \<open>
  What the function depends on besides its argument: the environment described by
  \<^typ>\<open>engine\<close>, and the outcome of the request to the model, which either throws or returns
  a response whose \<^verbatim>\<open>text\<close> may be undefined. The instruction text sent with the request is
  not modelled: the reply is arbitrary.
\<close>

datatype api_reply = Throws string | Replies "string option"

text \<open>\<^verbatim>\<open>!apiKey\<close>\<close>

definition no_api_key :: "engine \<Rightarrow> bool" where
  "no_api_key eng \<longleftrightarrow> apiKey eng = None \<or> apiKey eng = Some []"

definition structural_failure :: string where
  "structural_failure =
     ''JSON_STRUCTURAL_FAILURE: Response was truncated or malformed. Reduce '' @ [CHR 0x27] @
     ''Asset Density'' @ [CHR 0x27] @ ''.''"

text \<open>Lines 245-255 of \<^verbatim>\<open>geminiService.ts\<close>: parse; on a \<^verbatim>\<open>SyntaxError\<close> parse once more with a
  closing brace appended; on a second \<^verbatim>\<open>SyntaxError\<close> throw the structural failure.\<close>

definition parse_with_retry :: "string \<Rightarrow> string + jsval" where
  "parse_with_retry rawJson =
     (case json_parse rawJson of
        Some data \<Rightarrow> Inr data
      | None \<Rightarrow>
          (case json_parse (rawJson @ ''}'') of
             Some data \<Rightarrow> Inr data
           | None \<Rightarrow> Inl structural_failure))"

text \<open>\<^verbatim>\<open>p && (p.prompt || p.label)\<close>, the filter of \<^verbatim>\<open>geminiService.ts\<close>\<close>

definition valid_prompt :: "jsval \<Rightarrow> bool" where
  "valid_prompt p \<longleftrightarrow> truthy p \<and> truthy (or_else (member p ''prompt'') (member p ''label''))"

definition is_nullish :: "jsval \<Rightarrow> bool" where
  "is_nullish v \<longleftrightarrow> v = JNull \<or> v = JUndefined"

text \<open>
  Lines 257-274 of \<^verbatim>\<open>geminiService.ts\<close>: the package built from the parsed value \<open>data\<close>.
  Reading \<^verbatim>\<open>data.visualPrompts\<close> throws a \<^verbatim>\<open>TypeError\<close> when \<open>data\<close> is \<^verbatim>\<open>null\<close>; the result is then
  the message of that error.
\<close>

definition build_package ::
  "engine \<Rightarrow> UserInput \<Rightarrow> StylePreset option \<Rightarrow> jsval \<Rightarrow> string + ProductionPackage" where
  "build_package eng input styleData data =
     (if is_nullish data then Inl (null_read_message eng ''visualPrompts'')
      else
        let rawPrompts = array_or_empty (member data ''visualPrompts'');
            validPrompts = filter valid_prompt rawPrompts
        in Inr \<lparr>metadata =
                   \<lparr>md_topic = or_else (opt_member (member data ''metadata'') ''topic'')
                                        (JStr (take 30 (script input))),
                    md_mood = or_else (opt_member (member data ''metadata'') ''mood'')
                                       (JStr (u16 ''Cinematic'')),
                    md_visualStyle = visualStyle input,
                    md_aspectRatio = aspectRatio input,
                    md_duration = videoDuration input\<rparr>,
                 seo = or_else (member data ''seo'') default_seo,
                 story = or_else (member data ''story'') (JStr (script input)),
                 titles = or_else (member data ''keyframe_plan_titles'')
                                  (JArr (map (\<lambda>p. member p ''label'') validPrompts)),
                 visualPrompts = validPrompts,
                 audioMap = [],
                 cst = [], bst = [], gst = [],
                 vst = preset_vst styleData\<rparr>)"

text \<open>The rest of the \<^verbatim>\<open>try\<close> block once \<open>data\<close> is parsed: the package, or the failure that
  \<^verbatim>\<open>handleApiError\<close> makes of a \<^verbatim>\<open>TypeError\<close>.\<close>

definition package_from :: "engine \<Rightarrow> UserInput \<Rightarrow> jsval \<Rightarrow> failure + ProductionPackage" where
  "package_from eng input data =
     (case build_package eng input (resolve_style (visualStyle input)) data of
        Inl m \<Rightarrow> Inl (handleApiError eng m ''GENERATE_PACKAGE'')
      | Inr pkg \<Rightarrow> Inr pkg)"

text \<open>\<^verbatim>\<open>generateMoviePackage\<close> of \<^verbatim>\<open>geminiService.ts\<close> (lines 204-278). \<^verbatim>\<open>getAiClient\<close> throws outside
  the \<^verbatim>\<open>try\<close> block; everything thrown inside it goes through \<^verbatim>\<open>handleApiError\<close>.\<close>

definition generateMoviePackage ::
  "engine \<Rightarrow> api_reply \<Rightarrow> UserInput \<Rightarrow> failure + ProductionPackage" where
  "generateMoviePackage eng reply input =
     (if no_api_key eng
      then Inl (Failure (u16 ''API Key not found. Please ensure the Engine is locked with a valid Gemini API Key.'') False)
      else
        case reply of
          Throws m \<Rightarrow> Inl (handleApiError eng m ''GENERATE_PACKAGE'')
        | Replies text \<Rightarrow>
            (case parse_with_retry (cleanJsonString text) of
               Inl m \<Rightarrow> Inl (handleApiError eng m ''GENERATE_PACKAGE'')
             | Inr data \<Rightarrow> package_from eng input data))"

subsection \<open>Revision v3.1\<close>

definition structural_failure_v31 :: string where
  "structural_failure_v31 =
     ''JSON_STRUCTURAL_FAILURE: Response was truncated or invalid. Please shorten script or reduce density.''"

text \<open>The keyframe count of a request. The density of a request is one of the three columns,
  for which the lookup always yields a number (lemma \<open>keyframe_count_defined\<close> below).\<close>

definition keyframeTotal_v31 :: "engine \<Rightarrow> UserInput \<Rightarrow> nat" where
  "keyframeTotal_v31 eng input =
     (case getRequiredKeyframeCount_v31 eng (videoDuration input)
             (density_label (sceneDensity input)) of
        Count n \<Rightarrow> n
      | _ \<Rightarrow> 8)"

text \<open>
  Lines 304-320 of v3.1. The prompts are the first \<open>keyframeTotal\<close> elements, unfiltered.
  The titles fall back to \<^verbatim>\<open>validPrompts.map(p => p.label || "Scene")\<close>, which throws a
  \<^verbatim>\<open>TypeError\<close> when one of those elements is \<^verbatim>\<open>null\<close>.
\<close>

definition build_package_v31 ::
  "engine \<Rightarrow> UserInput \<Rightarrow> StylePreset option \<Rightarrow> nat \<Rightarrow> jsval \<Rightarrow> string + ProductionPackage" where
  "build_package_v31 eng input stylePreset keyframeTotal data =
     (if is_nullish data then Inl (null_read_message eng ''visualPrompts'')
      else
        let validPrompts = take keyframeTotal (array_or_empty (member data ''visualPrompts''))
        in if \<not> truthy (member data ''keyframe_plan_titles'') \<and> filter is_nullish validPrompts \<noteq> []
           then Inl (null_read_message eng ''label'')
           else
             Inr \<lparr>metadata =
                     \<lparr>md_topic = or_else (opt_member (member data ''metadata'') ''topic'')
                                          (JStr (take 30 (script input))),
                      md_mood = or_else (opt_member (member data ''metadata'') ''mood'')
                                         (JStr (u16 ''Cinematic'')),
                      md_visualStyle = visualStyle input,
                      md_aspectRatio = aspectRatio input,
                      md_duration = videoDuration input\<rparr>,
                   seo = or_else (member data ''seo'') default_seo,
                   story = or_else (member data ''story'') (JStr (script input)),
                   titles = or_else (member data ''keyframe_plan_titles'')
                              (JArr (map (\<lambda>p. or_else (member p ''label'') (JStr (u16 ''Scene'')))
                                         validPrompts)),
                   visualPrompts = validPrompts,
                   audioMap = [],
                   cst = [], bst = [], gst = [],
                   vst = preset_vst stylePreset\<rparr>)"

text \<open>One pass through the \<^verbatim>\<open>try\<close> block of v3.1 (lines 283-320): it returns a package, or
  returns the result of calling itself again after a parse error (only when
  \<^verbatim>\<open>retryCount < 1\<close>), or throws.\<close>

datatype attempt = Returned ProductionPackage | RetryAfterParseError | Threw string

definition attempt_v31 :: "engine \<Rightarrow> api_reply \<Rightarrow> UserInput \<Rightarrow> nat \<Rightarrow> attempt" where
  "attempt_v31 eng reply input retryCount =
     (case reply of
        Throws m \<Rightarrow> Threw m
      | Replies text \<Rightarrow>
          (case json_parse (cleanJsonString_v31 text) of
             None \<Rightarrow> if retryCount < 1 then RetryAfterParseError else Threw structural_failure_v31
           | Some data \<Rightarrow>
               (case build_package_v31 eng input (resolve_style (visualStyle input))
                       (keyframeTotal_v31 eng input) data of
                  Inl m \<Rightarrow> Threw m
                | Inr pkg \<Rightarrow> Returned pkg)))"

lemma retry_only_first: "attempt_v31 eng reply input retryCount = RetryAfterParseError \<Longrightarrow> retryCount < 1"
  by (auto simp: attempt_v31_def split: api_reply.splits option.splits sum.splits if_splits)

text \<open>The test of the \<^verbatim>\<open>catch\<close> block of v3.1 for a quota error, on the message as thrown.\<close>

definition quota_error :: "string \<Rightarrow> bool" where
  "quota_error m \<longleftrightarrow>
     js_includes m ''429'' \<or> js_includes m ''QUOTA'' \<or> js_includes m ''RESOURCE_EXHAUSTED''"

text \<open>
  \<^verbatim>\<open>generateMoviePackage\<close> of v3.1 (lines 231-328). Every call sends one request, and a call
  with \<^verbatim>\<open>retryCount\<close> = \<open>n\<close> is the \<open>n\<close>-th retry, so \<open>replies n\<close> is the outcome of its request.
  The delay before a retry after a quota error is not modelled.
\<close>

function generateMoviePackage_v31 ::
  "engine \<Rightarrow> (nat \<Rightarrow> api_reply) \<Rightarrow> UserInput \<Rightarrow> nat \<Rightarrow> failure + ProductionPackage" where
  "generateMoviePackage_v31 eng replies input retryCount =
     (if no_api_key eng
      then Inl (Failure (u16 ''API Key not found. Ensure environment is configured with a valid Gemini API Key.'') False)
      else
        case attempt_v31 eng (replies retryCount) input retryCount of
          Returned pkg \<Rightarrow> Inr pkg
        | RetryAfterParseError \<Rightarrow> generateMoviePackage_v31 eng replies input (retryCount + 1)
        | Threw m \<Rightarrow>
            if quota_error m \<and> retryCount < 5
            then generateMoviePackage_v31 eng replies input (retryCount + 1)
            else Inl (handleApiError_v31 eng m ''GENERATE_PACKAGE''))"
  by pat_completeness auto
termination
  by (relation "measure (\<lambda>(eng, replies, input, retryCount). 5 - retryCount)")
     (auto dest: retry_only_first)

declare generateMoviePackage_v31.simps [simp del]

section \<open>The parser's stack and the counters of the scanning loops\<close>

text \<open>
  For the comparison of \<^verbatim>\<open>JSON.parse\<close> with the scanning loops of \<^verbatim>\<open>cleanJsonString\<close>: while
  both read the same valid text, \<^verbatim>\<open>braceCount\<close> is the number of object frames on the
  parser's stack and \<^verbatim>\<open>bracketCount\<close> the number of array frames.
\<close>

fun nobj :: "frame list \<Rightarrow> int" where
  "nobj [] = 0"
| "nobj (InObj ms k # stk) = nobj stk + 1"
| "nobj (InArr es # stk) = nobj stk"

fun narr :: "frame list \<Rightarrow> int" where
  "narr [] = 0"
| "narr (InArr es # stk) = narr stk + 1"
| "narr (InObj ms k # stk) = narr stk"




section \<open>Properties of the repair engine\<close>

text \<open>
  C1 (counterexample). The claim that the returned text always parses fails at the very
  input the claim names: for the text cut in the middle of a string no safe point was
  recorded, both revisions fall back to appending a single closing brace, and the result
  \<^verbatim>\<open>{"a":"hello wor}\<close> still holds an unterminated string.
\<close>

theorem C1_unterminated_string_counterexample:
  \<open>json_parse (cleanJsonString (Some ''{"a":"hello wor'')) = None \<and>
   json_parse (cleanJsonString_v31 (Some ''{"a":"hello wor'')) = None\<close>
  by code_simp

text \<open>
  C1 (amended). What both revisions guarantee is the sentinel: for an absent or empty text,
  and for a text in which no root character is found after unwrapping, the result is the
  text \<^verbatim>\<open>{}\<close>, which parses to the empty object. For any other input the result is a
  best-effort repair, and whether it parses is left to the caller's guard around the parser.
\<close>

theorem C1_sentinel_parses:
  "cleanJsonString None = ''{}'' \<and> cleanJsonString_v31 None = ''{}'' \<and>
   cleanJsonString (Some []) = ''{}'' \<and> cleanJsonString_v31 (Some []) = ''{}'' \<and>
   (index_of (CHR ''{'') (unwrap t) = None \<longrightarrow> cleanJsonString (Some t) = ''{}'') \<and>
   (index_of (CHR ''{'') (unwrap t) = None \<and> index_of (CHR ''['') (unwrap t) = None
      \<longrightarrow> cleanJsonString_v31 (Some t) = ''{}'') \<and>
   json_parse ''{}'' = Some (JObj [])"
proof -
  have "json_parse ''{}'' = Some (JObj [])" by code_simp
  then show ?thesis
    by (simp add: cleanJsonString_def cleanJsonString_v31_def find_root_v31_def)
qed

theorem C1_sentinel_parses_witness:
  "index_of (CHR ''{'') (unwrap ''not json at all'') = None \<and>
   index_of (CHR ''['') (unwrap ''not json at all'') = None \<and>
   cleanJsonString (Some ''not json at all'') = ''{}'' \<and>
   cleanJsonString_v31 (Some ''not json at all'') = ''{}''"
proof -
  have a: "index_of (CHR ''{'') (unwrap ''not json at all'') = None" by code_simp
  have b: "index_of (CHR ''['') (unwrap ''not json at all'') = None" by code_simp
  from a b C1_sentinel_parses [of "''not json at all''"] show ?thesis by simp
qed

text \<open>
  C2. For the truncated object \<^verbatim>\<open>{"a":1,"b":[1,2,\<close> both revisions end the scan with one
  brace and one bracket open and the last safe point at the final comma (index 15); the
  text is cut there, the trailing comma is stripped, and exactly \<^verbatim>\<open>]\<close> and \<^verbatim>\<open>}\<close> are
  appended. The result parses, and its member \<^verbatim>\<open>a\<close> is the number 1.
\<close>

theorem C2_truncated_object_repaired:
  \<open>scan 0 ''{"a":1,"b":[1,2,'' scan_init =
     \<lparr>braceCount = 1, bracketCount = 1, inString = False, escaped = False, lastSafePoint = 15\<rparr> \<and>
   scan_v31 0 ''{"a":1,"b":[1,2,'' scan_init =
     (\<lparr>braceCount = 1, bracketCount = 1, inString = False, escaped = False, lastSafePoint = 15\<rparr>,
      None) \<and>
   strip_trailing_comma (trim (take 16 ''{"a":1,"b":[1,2,'')) = ''{"a":1,"b":[1,2'' \<and>
   close_open_structures ''{"a":1,"b":[1,2'' = ''{"a":1,"b":[1,2'' @ '']}'' \<and>
   cleanJsonString (Some ''{"a":1,"b":[1,2,'') = ''{"a":1,"b":[1,2]}'' \<and>
   cleanJsonString_v31 (Some ''{"a":1,"b":[1,2,'') = ''{"a":1,"b":[1,2]}'' \<and>
   json_parse ''{"a":1,"b":[1,2]}'' =
     Some (JObj [(u16 ''a'', JNum 1), (u16 ''b'', JArr [JNum 1, JNum 2])]) \<and>
   member (JObj [(u16 ''a'', JNum 1), (u16 ''b'', JArr [JNum 1, JNum 2])]) ''a'' = JNum 1\<close>
  by code_simp

text \<open>
  C3. For the input \<^verbatim>\<open>{"a":1}}}\<close> revision v3.1 cuts the text where both counters are back
  at zero and returns \<^verbatim>\<open>{"a":1}\<close>, which parses to the object with the single member
  \<^verbatim>\<open>a\<close> = 1, as the claim says. The loop of \<^verbatim>\<open>geminiService.ts\<close> has no such cut: it is left
  at the first stray closer with a negative counter, no repair applies, and the whole
  text, stray closers included, is returned; the parser rejects it.
\<close>

theorem C3_stray_closers:
  \<open>cleanJsonString_v31 (Some ''{"a":1}}}'') = ''{"a":1}'' \<and>
   json_parse ''{"a":1}'' = Some (JObj [(u16 ''a'', JNum 1)]) \<and>
   scan 0 ''{"a":1}}}'' scan_init =
     \<lparr>braceCount = - 1, bracketCount = 0, inString = False, escaped = False, lastSafePoint = 6\<rparr> \<and>
   cleanJsonString (Some ''{"a":1}}}'') = ''{"a":1}}}'' \<and>
   json_parse (cleanJsonString (Some ''{"a":1}}}'')) = None\<close>
  by code_simp

text \<open>
  C5. Revision v3.1 takes the first \<^verbatim>\<open>{\<close> or \<^verbatim>\<open>[\<close> as the root, so the array \<^verbatim>\<open>[1,2]\<close> is
  recovered from its bracket, and a text with neither character gives \<^verbatim>\<open>{}\<close>. The function
  of \<^verbatim>\<open>geminiService.ts\<close> looks for \<^verbatim>\<open>{\<close> only: the same array is treated as unrecoverable,
  and an array of objects is entered at its first inner brace.
\<close>

theorem C5_array_root:
  \<open>cleanJsonString_v31 (Some ''[1,2]'') = ''[1,2]'' \<and>
   cleanJsonString_v31 (Some ''x [{"a":1}] y'') = ''[{"a":1}]'' \<and>
   cleanJsonString_v31 (Some ''not json at all'') = ''{}'' \<and>
   cleanJsonString (Some ''[1,2]'') = ''{}'' \<and>
   cleanJsonString (Some ''[{"a":1}]'') = ''{"a":1}]'' \<and>
   json_parse ''{"a":1}]'' = None\<close>
  by code_simp

section \<open>Properties of \<^verbatim>\<open>generateMoviePackage\<close>\<close>

text \<open>Searching a text of characters and searching its code units agree.\<close>

lemma u16_eq_iff: "u16 a = u16 b \<longleftrightarrow> a = b"
  by (simp add: inj_map_eq_map inj_on_def)

lemma js_includes_u16: "js_includes (u16 s) (u16 n) = js_includes s n"
proof (induction s)
  case Nil
  show ?case by simp
next
  case (Cons c cs)
  have "take (length n) (u16 (c # cs)) = u16 n \<longleftrightarrow> take (length n) (c # cs) = n"
    by (metis take_map u16_eq_iff)
  with Cons show ?case by simp
qed

lemma lower_structural_failure:
  "map to_lower structural_failure =
     ''json_structural_failure: response was truncated or malformed. reduce '' @ [CHR 0x27] @
     ''asset density'' @ [CHR 0x27] @ ''.''"
  by code_simp

lemma lower_structural_failure_v31:
  "map to_lower structural_failure_v31 =
     ''json_structural_failure: response was truncated or invalid. please shorten script or reduce density.''"
  by code_simp

text \<open>What \<^verbatim>\<open>handleApiError\<close> makes of the structural failure: neither key nor quota is
  mentioned, so the message is wrapped, lower-cased, as an engine failure.\<close>

lemma error_text_plain:
  "message \<noteq> [] \<Longrightarrow> hd message \<noteq> CHR ''{'' \<Longrightarrow> error_text eng message = u16 (map to_lower message)"
  by (simp add: error_text_def)

lemma mentions_bad_key_u16:
  "mentions_bad_key (u16 s) \<longleftrightarrow>
     js_includes s ''401'' \<or> js_includes s ''403'' \<or>
     js_includes s ''api key not valid'' \<or> js_includes s ''invalid api key''"
  unfolding mentions_bad_key_def js_includes_u16 ..

lemma mentions_quota_u16:
  "mentions_quota (u16 s) \<longleftrightarrow>
     js_includes s ''429'' \<or> js_includes s ''quota'' \<or>
     js_includes s ''limit'' \<or> js_includes s ''resource_exhausted''"
  unfolding mentions_quota_def js_includes_u16 ..

lemma structural_failure_plain:
  "\<not> mentions_bad_key (u16 (map to_lower structural_failure)) \<and>
   \<not> mentions_quota (u16 (map to_lower structural_failure))"
  unfolding mentions_bad_key_u16 mentions_quota_u16 lower_structural_failure
  by code_simp

lemma structural_failure_v31_plain:
  "\<not> mentions_bad_key (u16 (map to_lower structural_failure_v31)) \<and>
   \<not> mentions_quota (u16 (map to_lower structural_failure_v31))"
  unfolding mentions_bad_key_u16 mentions_quota_u16 lower_structural_failure_v31
  by code_simp

lemma structural_failure_handled:
  "handleApiError eng structural_failure ''GENERATE_PACKAGE'' =
     Failure (u16 (''Engine Failure [GENERATE_PACKAGE]: json_structural_failure: response was truncated or malformed. reduce '' @ [CHR 0x27] @ ''asset density'' @ [CHR 0x27] @ ''.'')) False"
proof -
  have "error_text eng structural_failure = u16 (map to_lower structural_failure)"
    by (rule error_text_plain) (simp_all add: structural_failure_def)
  then show ?thesis
    using structural_failure_plain
    by (simp add: handleApiError_def engine_failure_def lower_structural_failure)
qed

lemma structural_failure_v31_handled:
  "handleApiError_v31 eng structural_failure_v31 ''GENERATE_PACKAGE'' =
     Failure (u16 ''Engine Failure [GENERATE_PACKAGE]: json_structural_failure: response was truncated or invalid. please shorten script or reduce density.'') False"
proof -
  have "error_text eng structural_failure_v31 = u16 (map to_lower structural_failure_v31)"
    by (rule error_text_plain) (simp_all add: structural_failure_v31_def)
  then show ?thesis
    using structural_failure_v31_plain
    by (simp add: handleApiError_v31_def engine_failure_def lower_structural_failure_v31)
qed

lemma structural_failure_v31_no_quota: "\<not> quota_error structural_failure_v31"
  by code_simp

text \<open>The three ways a call of v3.1 can go once the reply is there.\<close>

lemma v31_first_parse_error_requests_again:
  "\<not> no_api_key eng \<Longrightarrow> replies 0 = Replies text \<Longrightarrow>
   json_parse (cleanJsonString_v31 text) = None \<Longrightarrow>
   generateMoviePackage_v31 eng replies input 0 = generateMoviePackage_v31 eng replies input 1"
  by (subst generateMoviePackage_v31.simps) (simp add: attempt_v31_def)

lemma v31_later_parse_error_fails:
  "\<not> no_api_key eng \<Longrightarrow> 1 \<le> n \<Longrightarrow> replies n = Replies text \<Longrightarrow>
   json_parse (cleanJsonString_v31 text) = None \<Longrightarrow>
   generateMoviePackage_v31 eng replies input n =
     Inl (Failure (u16 ''Engine Failure [GENERATE_PACKAGE]: json_structural_failure: response was truncated or invalid. please shorten script or reduce density.'') False)"
  by (subst generateMoviePackage_v31.simps)
     (simp add: attempt_v31_def structural_failure_v31_no_quota structural_failure_v31_handled)

lemma v31_parsed_reply:
  "\<not> no_api_key eng \<Longrightarrow> replies n = Replies text \<Longrightarrow>
   json_parse (cleanJsonString_v31 text) = Some data \<Longrightarrow>
   build_package_v31 eng input (resolve_style (visualStyle input)) (keyframeTotal_v31 eng input) data = Inr pkg \<Longrightarrow>
   generateMoviePackage_v31 eng replies input n = Inr pkg"
  by (subst generateMoviePackage_v31.simps) (simp add: attempt_v31_def)

text \<open>
  C6 (counterexample). The retry of v3.1 does not append a brace. For the reply
  \<^verbatim>\<open>{"a":"}","b":[1,\<close> the repaired text \<^verbatim>\<open>{"a":"}","b":[1]\<close> does not parse (the brace inside
  the string was counted), and it would parse with one closing brace appended; v3.1 sends
  the request again instead, and when the model answers the same, fails.
\<close>

theorem C6_v31_requests_again_counterexample:
  \<open>json_parse (cleanJsonString_v31 (Some ''{"a":"}","b":[1,'')) = None \<and>
   json_parse (cleanJsonString_v31 (Some ''{"a":"}","b":[1,'') @ ''}'') =
     Some (JObj [(u16 ''a'', JStr (u16 ''}'')), (u16 ''b'', JArr [JNum 1])]) \<and>
   generateMoviePackage_v31 \<lparr>apiKey = Some ''k'', null_read_message = (\<lambda>p. p), unicode_lower = (\<lambda>s. s),
        builtin_member = (\<lambda>name key. Read_falsy)\<rparr>
       (\<lambda>n. Replies (Some ''{"a":"}","b":[1,''))
       \<lparr>script = u16 ''s'', visualStyle = u16 ''Cyberpunk'', sceneDensity = Standard,
        aspectRatio = Ratio_16_9, characterDescription = [], videoDuration = ''1 Minute'',
        modelEngine = []\<rparr> 0 =
     Inl (Failure (u16 ''Engine Failure [GENERATE_PACKAGE]: json_structural_failure: response was truncated or invalid. please shorten script or reduce density.'') False)\<close>
proof -
  let ?eng = "\<lparr>apiKey = Some ''k'', null_read_message = (\<lambda>p. p), unicode_lower = (\<lambda>s. s),
        builtin_member = (\<lambda>name key. Read_falsy)\<rparr>"
  let ?t = \<open>Some ''{"a":"}","b":[1,''\<close>
  have k: "\<not> no_api_key ?eng" by (simp add: no_api_key_def)
  have p1: "json_parse (cleanJsonString_v31 ?t) = None" by code_simp
  have p2: "json_parse (cleanJsonString_v31 ?t @ ''}'') =
     Some (JObj [(u16 ''a'', JStr (u16 ''}'')), (u16 ''b'', JArr [JNum 1])])" by code_simp
  show ?thesis
    using p1 p2
      v31_first_parse_error_requests_again [OF k _ p1, of "\<lambda>n. Replies ?t"]
      v31_later_parse_error_fails [OF k _ _ p1, of 1 "\<lambda>n. Replies ?t"]
    by simp
qed

text \<open>
  C6 (amended). With an API key present, a parse error of the repaired text is retried
  exactly once, and a second parse error raises the structural failure, which reaches the
  caller as an engine failure that names it and carries the guidance. The retry of
  \<^verbatim>\<open>geminiService.ts\<close> appends one closing brace and parses again. The retry of v3.1 is a
  new request to the model, made only by the first call (\<^verbatim>\<open>retryCount\<close> = 0): a call with
  \<^verbatim>\<open>retryCount\<close> \<open>\<ge> 1\<close> raises the failure at once.
\<close>

theorem C6_one_retry_then_structural_failure:
  "(\<not> no_api_key eng \<and> json_parse (cleanJsonString text) = Some data
      \<longrightarrow> generateMoviePackage eng (Replies text) input = package_from eng input data) \<and>
   (\<not> no_api_key eng \<and> json_parse (cleanJsonString text) = None \<and>
    json_parse (cleanJsonString text @ ''}'') = Some data
      \<longrightarrow> generateMoviePackage eng (Replies text) input = package_from eng input data) \<and>
   (\<not> no_api_key eng \<and> json_parse (cleanJsonString text) = None \<and>
    json_parse (cleanJsonString text @ ''}'') = None
      \<longrightarrow> generateMoviePackage eng (Replies text) input =
            Inl (Failure (u16 (''Engine Failure [GENERATE_PACKAGE]: json_structural_failure: response was truncated or malformed. reduce '' @ [CHR 0x27] @ ''asset density'' @ [CHR 0x27] @ ''.'')) False)) \<and>
   (\<not> no_api_key eng \<and> replies 0 = Replies text0 \<and> json_parse (cleanJsonString_v31 text0) = None
      \<longrightarrow> generateMoviePackage_v31 eng replies input 0 = generateMoviePackage_v31 eng replies input 1) \<and>
   (\<not> no_api_key eng \<and> 1 \<le> n \<and> replies n = Replies text1 \<and> json_parse (cleanJsonString_v31 text1) = None
      \<longrightarrow> generateMoviePackage_v31 eng replies input n =
            Inl (Failure (u16 ''Engine Failure [GENERATE_PACKAGE]: json_structural_failure: response was truncated or invalid. please shorten script or reduce density.'') False))"
proof -
  have a: "\<not> no_api_key eng \<Longrightarrow> json_parse (cleanJsonString text) = Some data
      \<Longrightarrow> generateMoviePackage eng (Replies text) input = package_from eng input data"
    by (simp add: generateMoviePackage_def parse_with_retry_def)
  have b: "\<not> no_api_key eng \<Longrightarrow> json_parse (cleanJsonString text) = None \<Longrightarrow>
    json_parse (cleanJsonString text @ ''}'') = Some data
      \<Longrightarrow> generateMoviePackage eng (Replies text) input = package_from eng input data"
    by (simp add: generateMoviePackage_def parse_with_retry_def)
  have c: "\<not> no_api_key eng \<Longrightarrow> json_parse (cleanJsonString text) = None \<Longrightarrow>
    json_parse (cleanJsonString text @ ''}'') = None
      \<Longrightarrow> generateMoviePackage eng (Replies text) input =
            Inl (handleApiError eng structural_failure ''GENERATE_PACKAGE'')"
    by (simp add: generateMoviePackage_def parse_with_retry_def)
  show ?thesis
    using a b c v31_first_parse_error_requests_again [of eng replies text0 input]
      v31_later_parse_error_fails [of eng n replies text1 input]
    unfolding structural_failure_handled by blast
qed

theorem C6_one_retry_then_structural_failure_witness:
  \<open>\<not> no_api_key \<lparr>apiKey = Some ''k'', null_read_message = (\<lambda>p. p), unicode_lower = (\<lambda>s. s),
        builtin_member = (\<lambda>name key. Read_falsy)\<rparr> \<and>
   json_parse (cleanJsonString (Some ''{"a":"hello wor'')) = None \<and>
   json_parse (cleanJsonString (Some ''{"a":"hello wor'') @ ''}'') = None \<and>
   generateMoviePackage \<lparr>apiKey = Some ''k'', null_read_message = (\<lambda>p. p), unicode_lower = (\<lambda>s. s),
        builtin_member = (\<lambda>name key. Read_falsy)\<rparr>
       (Replies (Some ''{"a":"hello wor''))
       \<lparr>script = u16 ''s'', visualStyle = u16 ''Cyberpunk'', sceneDensity = Standard,
        aspectRatio = Ratio_16_9, characterDescription = [], videoDuration = ''1 Minute'',
        modelEngine = []\<rparr> =
     Inl (Failure (u16 (''Engine Failure [GENERATE_PACKAGE]: json_structural_failure: response was truncated or malformed. reduce '' @ [CHR 0x27] @ ''asset density'' @ [CHR 0x27] @ ''.'')) False) \<and>
   json_parse (cleanJsonString_v31 (Some ''{"a":"hello wor'')) = None \<and>
   generateMoviePackage_v31 \<lparr>apiKey = Some ''k'', null_read_message = (\<lambda>p. p), unicode_lower = (\<lambda>s. s),
        builtin_member = (\<lambda>name key. Read_falsy)\<rparr>
       (\<lambda>n. Replies (Some ''{"a":"hello wor''))
       \<lparr>script = u16 ''s'', visualStyle = u16 ''Cyberpunk'', sceneDensity = Standard,
        aspectRatio = Ratio_16_9, characterDescription = [], videoDuration = ''1 Minute'',
        modelEngine = []\<rparr> 1 =
     Inl (Failure (u16 ''Engine Failure [GENERATE_PACKAGE]: json_structural_failure: response was truncated or invalid. please shorten script or reduce density.'') False)\<close>
proof -
  let ?eng = "\<lparr>apiKey = Some ''k'', null_read_message = (\<lambda>p. p), unicode_lower = (\<lambda>s. s),
        builtin_member = (\<lambda>name key. Read_falsy)\<rparr>"
  let ?t = \<open>Some ''{"a":"hello wor''\<close>
  have k: "\<not> no_api_key ?eng" by (simp add: no_api_key_def)
  have p1: "json_parse (cleanJsonString ?t) = None" by code_simp
  have p2: "json_parse (cleanJsonString ?t @ ''}'') = None" by code_simp
  have p3: "json_parse (cleanJsonString_v31 ?t) = None" by code_simp
  from k p1 p2 p3
    C6_one_retry_then_structural_failure
      [of ?eng ?t _ _ "\<lambda>n. Replies ?t" _ 1 ?t]
  show ?thesis by simp
qed

section \<open>Properties of the keyframe count table\<close>

text \<open>
  In both tables every entry is positive and every row has the three columns. So for
  labels that are not names of inherited properties, the result is the entry of the table
  when there is one and the default 8 otherwise; and for the density of a request, which
  is one of the three columns, the result is always a positive number, whatever the
  duration.
\<close>

lemma keyframe_table_entries:
  "list_all (\<lambda>(d, row). list_all (\<lambda>(c, n). n \<noteq> 0) row \<and>
                list_all (\<lambda>c. map_of row c \<noteq> None) [''Concise'', ''Standard'', ''Detailed''])
     keyframe_table"
  by code_simp

lemma keyframe_table_v31_entries:
  "list_all (\<lambda>(d, row). list_all (\<lambda>(c, n). n \<noteq> 0) row \<and>
                list_all (\<lambda>c. map_of row c \<noteq> None) [''concise'', ''standard'', ''detailed''])
     keyframe_table_v31"
  by code_simp

lemma lookup_keyframes_plain:
  assumes pos: "list_all (\<lambda>(d, row). list_all (\<lambda>(c, n). n \<noteq> 0) row \<and> Q row) table"
    and d: "d \<notin> set object_prototype_keys" and k: "k \<notin> set object_prototype_keys"
  shows "lookup_keyframes eng table d k =
     Count (case map_of table d of
              None \<Rightarrow> 8
            | Some row \<Rightarrow> (case map_of row k of None \<Rightarrow> 8 | Some n \<Rightarrow> n))"
proof (cases "map_of table d")
  case None
  with d show ?thesis by (simp add: lookup_keyframes_def get_property_def)
next
  case (Some row)
  show ?thesis
  proof (cases "map_of row k")
    case None
    with Some k show ?thesis by (simp add: lookup_keyframes_def get_property_def)
  next
    case (Some n)
    from \<open>map_of table d = Some row\<close> have "(d, row) \<in> set table" by (rule map_of_SomeD)
    with pos have "list_all (\<lambda>(c, n). n \<noteq> 0) row" by (auto simp: list_all_iff)
    moreover from Some have "(k, n) \<in> set row" by (rule map_of_SomeD)
    ultimately have "n \<noteq> 0" by (auto simp: list_all_iff)
    with Some \<open>map_of table d = Some row\<close> show ?thesis
      by (simp add: lookup_keyframes_def get_property_def)
  qed
qed

lemma lookup_keyframes_column:
  assumes pos: "list_all (\<lambda>(d, row). list_all (\<lambda>(c, n). n \<noteq> 0) row \<and>
                   list_all (\<lambda>c. map_of row c \<noteq> None) cols) table"
    and k: "k \<in> set cols"
    and col: "set cols \<subseteq> set (concat (map (\<lambda>(d, row). map fst row) table))"
  shows "\<exists>n. lookup_keyframes eng table d k = Count n \<and> 0 < n"
proof (cases "map_of table d")
  case None
  with k col show ?thesis
    by (auto simp: lookup_keyframes_def get_property_def split: builtin_read.splits)
next
  case (Some row)
  then have "(d, row) \<in> set table" by (rule map_of_SomeD)
  with pos have r: "list_all (\<lambda>(c, n). n \<noteq> 0) row" "list_all (\<lambda>c. map_of row c \<noteq> None) cols"
    by (auto simp: list_all_iff)
  from r(2) k obtain n where n: "map_of row k = Some n" by (auto simp: list_all_iff)
  then have "(k, n) \<in> set row" by (rule map_of_SomeD)
  with r(1) have "n \<noteq> 0" by (auto simp: list_all_iff)
  with Some n show ?thesis by (simp add: lookup_keyframes_def get_property_def)
qed

lemma lower_density_label:
  "map to_lower (density_label den) \<in> set [''concise'', ''standard'', ''detailed'']"
proof -
  have "map to_lower ''Concise'' = ''concise''" by code_simp
  moreover have "map to_lower ''Standard'' = ''standard''" by code_simp
  moreover have "map to_lower ''Detailed'' = ''detailed''" by code_simp
  ultimately show ?thesis by (cases den) simp_all
qed

lemma density_label_column: "density_label den \<in> set [''Concise'', ''Standard'', ''Detailed'']"
  by (cases den) simp_all

lemma keyframe_columns:
  "set [''Concise'', ''Standard'', ''Detailed''] \<subseteq>
     set (concat (map (\<lambda>(d, row). map fst row) keyframe_table))"
  "set [''concise'', ''standard'', ''detailed''] \<subseteq>
     set (concat (map (\<lambda>(d, row). map fst row) keyframe_table_v31))"
  by code_simp+

lemma keyframe_count_of_request:
  "\<exists>n. getRequiredKeyframeCount eng d (density_label den) = Count n \<and> 0 < n"
  unfolding getRequiredKeyframeCount_def
  by (rule lookup_keyframes_column
        [OF keyframe_table_entries density_label_column keyframe_columns(1)])

lemma keyframe_count_defined:
  "\<exists>n. getRequiredKeyframeCount_v31 eng d (density_label den) = Count n \<and> 0 < n"
  unfolding getRequiredKeyframeCount_v31_def Let_def
  by (rule lookup_keyframes_column
        [OF keyframe_table_v31_entries lower_density_label keyframe_columns(2)])

text \<open>The eighteen requests that the form can make give the same counts in both
  revisions.\<close>

lemma keyframe_counts_of_form:
  "map (\<lambda>d. map (\<lambda>den. getRequiredKeyframeCount eng d (density_label den))
              [Concise, Standard, Detailed]) duration_options =
     [[Count 4, Count 5, Count 6], [Count 6, Count 8, Count 10], [Count 10, Count 14, Count 18],
      [Count 14, Count 20, Count 26], [Count 18, Count 26, Count 34],
      [Count 20, Count 30, Count 40]]"
  by code_simp

lemma keyframe_counts_of_form_v31:
  "map (\<lambda>d. map (\<lambda>den. getRequiredKeyframeCount_v31 eng d (density_label den))
              [Concise, Standard, Detailed]) duration_options =
     [[Count 4, Count 5, Count 6], [Count 6, Count 8, Count 10], [Count 10, Count 14, Count 18],
      [Count 14, Count 20, Count 26], [Count 18, Count 26, Count 34],
      [Count 20, Count 30, Count 40]]"
  by code_simp

lemma keyframe_examples:
  "getRequiredKeyframeCount eng ''1 Minute'' ''Standard'' = Count 8"
  "getRequiredKeyframeCount_v31 eng ''1 Minute'' ''Standard'' = Count 8"
  "getRequiredKeyframeCount eng ''17 Minutes'' ''Extreme'' = Count 8"
  "getRequiredKeyframeCount_v31 eng ''17 Minutes'' ''Extreme'' = Count 8"
  by code_simp+

text \<open>
  C7 (counterexample). The function of \<^verbatim>\<open>geminiService.ts\<close> looks the labels up as they
  are given, with no normalisation: for \<^verbatim>\<open>("3 minutes", "standard")\<close>, whose normalised forms
  name the row and the column of the entry 14, it misses the row \<^verbatim>\<open>"3 Minutes"\<close> and returns
  the default 8, where v3.1 returns 14. And an unmatched combination does not always give
  8: a density that names a property inherited by the row, such as \<^verbatim>\<open>"constructor"\<close>, gives
  that built-in in both revisions.
\<close>

theorem C7_exact_labels_counterexample:
  "\<forall>eng. getRequiredKeyframeCount eng ''3 minutes'' ''standard'' = Count 8 \<and>
         getRequiredKeyframeCount eng ''3 Minutes'' ''Standard'' = Count 14 \<and>
         getRequiredKeyframeCount_v31 eng ''3 minutes'' ''standard'' = Count 14 \<and>
         getRequiredKeyframeCount_v31 eng ''3   MINUTES'' ''STANDARD'' = Count 14 \<and>
         getRequiredKeyframeCount eng ''1 Minute'' ''constructor'' = Builtin [''constructor''] \<and>
         getRequiredKeyframeCount_v31 eng ''1 Minute'' ''Constructor'' = Builtin [''constructor'']"
  by (rule allI) code_simp

text \<open>
  C7 (amended). In \<^verbatim>\<open>geminiService.ts\<close> the labels are looked up as given, in a table keyed
  by the labels of the form; in v3.1 the duration is lower-cased and each run of white
  space replaced by an underscore, the density is lower-cased, and the table is keyed by
  the normalised labels. In both, when neither label (as looked up) is a name inherited
  from \<^verbatim>\<open>Object.prototype\<close>, the result is the entry of the table when the labels name a row
  and a column, and the default 8 otherwise. For the density of a request, one of
  \<^verbatim>\<open>Concise\<close>, \<^verbatim>\<open>Standard\<close>, \<^verbatim>\<open>Detailed\<close>, the result is a positive number whatever the duration,
  so nothing is thrown; and for the six durations that the form offers the two revisions
  return the same entries. The two calls that the claim names give 8 in both revisions.
\<close>

theorem C7_lookup:
  "(d \<notin> set object_prototype_keys \<and> k \<notin> set object_prototype_keys \<longrightarrow>
      getRequiredKeyframeCount eng d k =
        Count (case map_of keyframe_table d of
                 None \<Rightarrow> 8
               | Some row \<Rightarrow> (case map_of row k of None \<Rightarrow> 8 | Some n \<Rightarrow> n))) \<and>
   (underscore_spaces (map to_lower d) \<notin> set object_prototype_keys \<and>
    map to_lower k \<notin> set object_prototype_keys \<longrightarrow>
      getRequiredKeyframeCount_v31 eng d k =
        Count (case map_of keyframe_table_v31 (underscore_spaces (map to_lower d)) of
                 None \<Rightarrow> 8
               | Some row \<Rightarrow> (case map_of row (map to_lower k) of None \<Rightarrow> 8 | Some n \<Rightarrow> n))) \<and>
   (\<exists>n. getRequiredKeyframeCount eng d (density_label den) = Count n \<and> 0 < n) \<and>
   (\<exists>n. getRequiredKeyframeCount_v31 eng d (density_label den) = Count n \<and> 0 < n) \<and>
   map (\<lambda>d. map (\<lambda>den. getRequiredKeyframeCount eng d (density_label den))
              [Concise, Standard, Detailed]) duration_options =
     [[Count 4, Count 5, Count 6], [Count 6, Count 8, Count 10], [Count 10, Count 14, Count 18],
      [Count 14, Count 20, Count 26], [Count 18, Count 26, Count 34],
      [Count 20, Count 30, Count 40]] \<and>
   map (\<lambda>d. map (\<lambda>den. getRequiredKeyframeCount_v31 eng d (density_label den))
              [Concise, Standard, Detailed]) duration_options =
     map (\<lambda>d. map (\<lambda>den. getRequiredKeyframeCount eng d (density_label den))
              [Concise, Standard, Detailed]) duration_options \<and>
   getRequiredKeyframeCount eng ''1 Minute'' ''Standard'' = Count 8 \<and>
   getRequiredKeyframeCount_v31 eng ''1 Minute'' ''Standard'' = Count 8 \<and>
   getRequiredKeyframeCount eng ''17 Minutes'' ''Extreme'' = Count 8 \<and>
   getRequiredKeyframeCount_v31 eng ''17 Minutes'' ''Extreme'' = Count 8"
proof -
  have a: "d \<notin> set object_prototype_keys \<and> k \<notin> set object_prototype_keys \<longrightarrow>
      getRequiredKeyframeCount eng d k =
        Count (case map_of keyframe_table d of
                 None \<Rightarrow> 8
               | Some row \<Rightarrow> (case map_of row k of None \<Rightarrow> 8 | Some n \<Rightarrow> n))"
    unfolding getRequiredKeyframeCount_def
    using lookup_keyframes_plain [OF keyframe_table_entries, of d k eng] by blast
  have b: "underscore_spaces (map to_lower d) \<notin> set object_prototype_keys \<and>
    map to_lower k \<notin> set object_prototype_keys \<longrightarrow>
      getRequiredKeyframeCount_v31 eng d k =
        Count (case map_of keyframe_table_v31 (underscore_spaces (map to_lower d)) of
                 None \<Rightarrow> 8
               | Some row \<Rightarrow> (case map_of row (map to_lower k) of None \<Rightarrow> 8 | Some n \<Rightarrow> n))"
    unfolding getRequiredKeyframeCount_v31_def Let_def
    using lookup_keyframes_plain [OF keyframe_table_v31_entries,
        of "underscore_spaces (map to_lower d)" "map to_lower k" eng] by blast
  have c: "map (\<lambda>d. map (\<lambda>den. getRequiredKeyframeCount_v31 eng d (density_label den))
              [Concise, Standard, Detailed]) duration_options =
     map (\<lambda>d. map (\<lambda>den. getRequiredKeyframeCount eng d (density_label den))
              [Concise, Standard, Detailed]) duration_options"
    unfolding keyframe_counts_of_form keyframe_counts_of_form_v31 ..
  from a b c keyframe_count_of_request [of eng d den] keyframe_count_defined [of eng d den]
    keyframe_counts_of_form [of eng] keyframe_examples [of eng]
  show ?thesis by blast
qed

theorem C7_lookup_witness:
  "''3 Minutes'' \<notin> set object_prototype_keys \<and> ''Standard'' \<notin> set object_prototype_keys \<and>
   underscore_spaces (map to_lower ''3 Minutes'') \<notin> set object_prototype_keys \<and>
   map to_lower ''Standard'' \<notin> set object_prototype_keys \<and>
   getRequiredKeyframeCount
     \<lparr>apiKey = Some ''k'', null_read_message = (\<lambda>p. p), unicode_lower = (\<lambda>s. s),
      builtin_member = (\<lambda>name key. Read_falsy)\<rparr> ''3 Minutes'' ''Standard'' = Count 14 \<and>
   getRequiredKeyframeCount_v31
     \<lparr>apiKey = Some ''k'', null_read_message = (\<lambda>p. p), unicode_lower = (\<lambda>s. s),
      builtin_member = (\<lambda>name key. Read_falsy)\<rparr> ''3 Minutes'' ''Standard'' = Count 14"
proof -
  let ?E = "\<lparr>apiKey = Some ''k'', null_read_message = (\<lambda>p. p), unicode_lower = (\<lambda>s. s),
      builtin_member = (\<lambda>name key. Read_falsy)\<rparr>"
  have h1: "''3 Minutes'' \<notin> set object_prototype_keys" by code_simp
  have h2: "''Standard'' \<notin> set object_prototype_keys" by code_simp
  have h3: "underscore_spaces (map to_lower ''3 Minutes'') \<notin> set object_prototype_keys"
    by code_simp
  have h4: "map to_lower ''Standard'' \<notin> set object_prototype_keys" by code_simp
  have v1: "(case map_of keyframe_table ''3 Minutes'' of
                 None \<Rightarrow> 8
               | Some row \<Rightarrow> (case map_of row ''Standard'' of None \<Rightarrow> 8 | Some n \<Rightarrow> n)) = (14::nat)"
    by code_simp
  have v2: "(case map_of keyframe_table_v31 (underscore_spaces (map to_lower ''3 Minutes'')) of
                 None \<Rightarrow> 8
               | Some row \<Rightarrow> (case map_of row (map to_lower ''Standard'') of
                               None \<Rightarrow> 8 | Some n \<Rightarrow> n)) = (14::nat)"
    by code_simp
  from C7_lookup [of "''3 Minutes''" "''Standard''" ?E] h1 h2 h3 h4
  have "getRequiredKeyframeCount ?E ''3 Minutes'' ''Standard'' = Count 14 \<and>
        getRequiredKeyframeCount_v31 ?E ''3 Minutes'' ''Standard'' = Count 14"
    unfolding v1 v2 by blast
  with h1 h2 h3 h4 show ?thesis by blast
qed

section \<open>Properties of the package built from the parsed value\<close>

text \<open>What each revision keeps of the visual prompts, whenever it returns a package.\<close>

lemma build_package_v31_prompts:
  "build_package_v31 eng input sd n data = Inr pkg \<Longrightarrow>
   visualPrompts pkg = take n (array_or_empty (member data ''visualPrompts'')) \<and>
   length (visualPrompts pkg) \<le> n"
  by (auto simp: build_package_v31_def Let_def split: if_splits)

lemma build_package_prompts:
  "build_package eng input sd data = Inr pkg \<Longrightarrow>
   visualPrompts pkg = filter valid_prompt (array_or_empty (member data ''visualPrompts''))"
  by (auto simp: build_package_def Let_def split: if_splits)

text \<open>
  C8. With twelve entries and a keyframe count of 8 for \<^verbatim>\<open>("1 Minute", "Standard")\<close>, v3.1
  returns the first eight entries in their order, as the claim says. The code of
  \<^verbatim>\<open>geminiService.ts\<close> filters the entries that are truthy and have a truthy \<^verbatim>\<open>prompt\<close> or
  \<^verbatim>\<open>label\<close>, and never truncates: all twelve come back. (v3.1 in turn lacks that filter:
  with no \<^verbatim>\<open>keyframe_plan_titles\<close> and a \<^verbatim>\<open>null\<close> among the kept entries, reading its label
  throws, and no package is returned.)
\<close>

theorem C8_no_truncation:
  "getRequiredKeyframeCount eng ''1 Minute'' (density_label Standard) = Count 8 \<and>
   getRequiredKeyframeCount_v31 eng ''1 Minute'' (density_label Standard) = Count 8 \<and>
   map_sum id visualPrompts
     (build_package \<lparr>apiKey = Some ''k'', null_read_message = (\<lambda>p. p), unicode_lower = (\<lambda>s. s),
        builtin_member = (\<lambda>name key. Read_falsy)\<rparr>
        \<lparr>script = u16 ''s'', visualStyle = u16 ''Cyberpunk'', sceneDensity = Standard,
         aspectRatio = Ratio_16_9, characterDescription = [], videoDuration = ''1 Minute'',
         modelEngine = []\<rparr>
        None
        (JObj [(u16 ''visualPrompts'',
                JArr (map (\<lambda>i. JObj [(u16 ''label'', JStr [i])]) [1..<13]))])) =
     Inr (map (\<lambda>i. JObj [(u16 ''label'', JStr [i])]) [1..<13]) \<and>
   map_sum id visualPrompts
     (build_package_v31 \<lparr>apiKey = Some ''k'', null_read_message = (\<lambda>p. p), unicode_lower = (\<lambda>s. s),
        builtin_member = (\<lambda>name key. Read_falsy)\<rparr>
        \<lparr>script = u16 ''s'', visualStyle = u16 ''Cyberpunk'', sceneDensity = Standard,
         aspectRatio = Ratio_16_9, characterDescription = [], videoDuration = ''1 Minute'',
         modelEngine = []\<rparr>
        None 8
        (JObj [(u16 ''visualPrompts'',
                JArr (map (\<lambda>i. JObj [(u16 ''label'', JStr [i])]) [1..<13]))])) =
     Inr (map (\<lambda>i. JObj [(u16 ''label'', JStr [i])]) [1..<9]) \<and>
   build_package_v31 \<lparr>apiKey = Some ''k'', null_read_message = (\<lambda>p. p), unicode_lower = (\<lambda>s. s),
        builtin_member = (\<lambda>name key. Read_falsy)\<rparr>
      \<lparr>script = u16 ''s'', visualStyle = u16 ''Cyberpunk'', sceneDensity = Standard,
       aspectRatio = Ratio_16_9, characterDescription = [], videoDuration = ''1 Minute'',
       modelEngine = []\<rparr>
      None 8 (JObj [(u16 ''visualPrompts'', JArr (replicate 9 JNull))]) = Inl ''label''"
  by code_simp

text \<open>
  C9 (counterexample). The default for \<^verbatim>\<open>seo\<close> replaces the bundle as a whole,
  \<^verbatim>\<open>data.seo || {...}\<close>: when the completion has an \<^verbatim>\<open>seo\<close> object without a title, the object
  is passed on as it is and the title stays undefined. A value of the wrong shape that is
  truthy is passed on as well, here an array as \<^verbatim>\<open>topic\<close>.
\<close>

theorem C9_present_seo_counterexample:
  "map_sum id (\<lambda>p. member (seo p) ''bestTitle'')
     (build_package \<lparr>apiKey = Some ''k'', null_read_message = (\<lambda>p. p), unicode_lower = (\<lambda>s. s),
        builtin_member = (\<lambda>name key. Read_falsy)\<rparr>
        \<lparr>script = u16 ''s'', visualStyle = u16 ''Cyberpunk'', sceneDensity = Standard,
         aspectRatio = Ratio_16_9, characterDescription = [], videoDuration = ''1 Minute'',
         modelEngine = []\<rparr>
        None (JObj [(u16 ''seo'', JObj [])])) = Inr JUndefined \<and>
   map_sum id (\<lambda>p. member (seo p) ''bestTitle'')
     (build_package_v31 \<lparr>apiKey = Some ''k'', null_read_message = (\<lambda>p. p), unicode_lower = (\<lambda>s. s),
        builtin_member = (\<lambda>name key. Read_falsy)\<rparr>
        \<lparr>script = u16 ''s'', visualStyle = u16 ''Cyberpunk'', sceneDensity = Standard,
         aspectRatio = Ratio_16_9, characterDescription = [], videoDuration = ''1 Minute'',
         modelEngine = []\<rparr>
        None 8 (JObj [(u16 ''seo'', JObj [])])) = Inr JUndefined \<and>
   map_sum id (\<lambda>p. md_topic (metadata p))
     (build_package \<lparr>apiKey = Some ''k'', null_read_message = (\<lambda>p. p), unicode_lower = (\<lambda>s. s),
        builtin_member = (\<lambda>name key. Read_falsy)\<rparr>
        \<lparr>script = u16 ''s'', visualStyle = u16 ''Cyberpunk'', sceneDensity = Standard,
         aspectRatio = Ratio_16_9, characterDescription = [], videoDuration = ''1 Minute'',
         modelEngine = []\<rparr>
        None (JObj [(u16 ''metadata'', JObj [(u16 ''topic'', JArr [])])])) = Inr (JArr [])"
  by code_simp

lemma default_seo_members:
  "member default_seo ''bestTitle'' = JStr (u16 ''Untitled'') \<and>
   member default_seo ''altTitles'' = JArr []"
  by code_simp

text \<open>The values that \<^verbatim>\<open>||\<close> replaces: besides \<^verbatim>\<open>undefined\<close> (an absent member) and \<^verbatim>\<open>null\<close>,
  also \<^verbatim>\<open>false\<close>, \<^verbatim>\<open>0\<close> and the empty string.\<close>

lemma falsy_values:
  "\<not> truthy JUndefined \<and> \<not> truthy JNull \<and> \<not> truthy (JBool False) \<and> \<not> truthy (JNum 0) \<and>
   \<not> truthy (JStr [])"
  by simp

lemma absent_member: "map_of (rev ms) (u16 key) = None \<Longrightarrow> member (JObj ms) key = JUndefined"
  by simp

lemma build_package_fields:
  "build_package eng input sd data = Inr pkg \<Longrightarrow>
   md_topic (metadata pkg) =
     or_else (opt_member (member data ''metadata'') ''topic'') (JStr (take 30 (script input))) \<and>
   md_mood (metadata pkg) =
     or_else (opt_member (member data ''metadata'') ''mood'') (JStr (u16 ''Cinematic'')) \<and>
   seo pkg = or_else (member data ''seo'') default_seo \<and>
   story pkg = or_else (member data ''story'') (JStr (script input)) \<and>
   titles pkg = or_else (member data ''keyframe_plan_titles'')
                  (JArr (map (\<lambda>p. member p ''label'') (visualPrompts pkg))) \<and>
   audioMap pkg = []"
  by (auto simp: build_package_def Let_def split: if_splits)

lemma build_package_v31_fields:
  "build_package_v31 eng input sd n data = Inr pkg \<Longrightarrow>
   md_topic (metadata pkg) =
     or_else (opt_member (member data ''metadata'') ''topic'') (JStr (take 30 (script input))) \<and>
   md_mood (metadata pkg) =
     or_else (opt_member (member data ''metadata'') ''mood'') (JStr (u16 ''Cinematic'')) \<and>
   seo pkg = or_else (member data ''seo'') default_seo \<and>
   story pkg = or_else (member data ''story'') (JStr (script input)) \<and>
   titles pkg = or_else (member data ''keyframe_plan_titles'')
                  (JArr (map (\<lambda>p. or_else (member p ''label'') (JStr (u16 ''Scene'')))
                             (visualPrompts pkg))) \<and>
   audioMap pkg = []"
  by (auto simp: build_package_v31_def Let_def split: if_splits)

lemma or_else_cases:
  "(\<not> truthy a \<longrightarrow> or_else a b = b) \<and> (truthy a \<longrightarrow> or_else a b = a)"
  by (simp add: or_else_def)

text \<open>
  C9 (amended). For the empty object both revisions return the package in which every
  field has its default: the first 30 code units of the script as topic, \<^verbatim>\<open>Cinematic\<close> as
  mood, the default \<^verbatim>\<open>seo\<close> bundle with the title \<^verbatim>\<open>Untitled\<close> and no alternative titles, the
  script as story, no titles, no visual prompts. For any parsed value, in every package
  returned, each of topic, mood, \<^verbatim>\<open>seo\<close> and story is the default when the upstream value is
  falsy, that is absent, \<^verbatim>\<open>null\<close>, \<^verbatim>\<open>false\<close>, \<^verbatim>\<open>0\<close> or the empty string, also when \<^verbatim>\<open>metadata\<close> is
  present; and it is the upstream value itself, whatever its shape, when that is truthy.
  So \<^verbatim>\<open>seo\<close> is defaulted only as a whole. The titles are the upstream
  \<^verbatim>\<open>keyframe_plan_titles\<close> when truthy and the labels of the returned prompts otherwise (in
  v3.1 with \<^verbatim>\<open>Scene\<close> for a falsy label); the visual prompts are empty when \<^verbatim>\<open>visualPrompts\<close> is
  not an array; the audio map is empty.
\<close>

theorem C9_defaults:
  "build_package eng input sd (JObj []) =
     Inr \<lparr>metadata =
            \<lparr>md_topic = JStr (take 30 (script input)),
             md_mood = JStr (u16 ''Cinematic''),
             md_visualStyle = visualStyle input,
             md_aspectRatio = aspectRatio input,
             md_duration = videoDuration input\<rparr>,
          seo = default_seo, story = JStr (script input), titles = JArr [],
          visualPrompts = [], audioMap = [], cst = [], bst = [], gst = [],
          vst = preset_vst sd\<rparr> \<and>
   build_package_v31 eng input sd n (JObj []) =
     Inr \<lparr>metadata =
            \<lparr>md_topic = JStr (take 30 (script input)),
             md_mood = JStr (u16 ''Cinematic''),
             md_visualStyle = visualStyle input,
             md_aspectRatio = aspectRatio input,
             md_duration = videoDuration input\<rparr>,
          seo = default_seo, story = JStr (script input), titles = JArr [],
          visualPrompts = [], audioMap = [], cst = [], bst = [], gst = [],
          vst = preset_vst sd\<rparr> \<and>
   member default_seo ''bestTitle'' = JStr (u16 ''Untitled'') \<and>
   member default_seo ''altTitles'' = JArr [] \<and>
   \<not> truthy JUndefined \<and> \<not> truthy JNull \<and> \<not> truthy (JBool False) \<and> \<not> truthy (JNum 0) \<and>
   \<not> truthy (JStr []) \<and>
   (\<forall>pkg. build_package eng input sd data = Inr pkg \<or>
          build_package_v31 eng input sd n data = Inr pkg \<longrightarrow>
      (\<not> truthy (opt_member (member data ''metadata'') ''topic'')
         \<longrightarrow> md_topic (metadata pkg) = JStr (take 30 (script input))) \<and>
      (truthy (opt_member (member data ''metadata'') ''topic'')
         \<longrightarrow> md_topic (metadata pkg) = opt_member (member data ''metadata'') ''topic'') \<and>
      (\<not> truthy (opt_member (member data ''metadata'') ''mood'')
         \<longrightarrow> md_mood (metadata pkg) = JStr (u16 ''Cinematic'')) \<and>
      (truthy (opt_member (member data ''metadata'') ''mood'')
         \<longrightarrow> md_mood (metadata pkg) = opt_member (member data ''metadata'') ''mood'') \<and>
      (\<not> truthy (member data ''seo'') \<longrightarrow> seo pkg = default_seo) \<and>
      (truthy (member data ''seo'') \<longrightarrow> seo pkg = member data ''seo'') \<and>
      (\<not> truthy (member data ''story'') \<longrightarrow> story pkg = JStr (script input)) \<and>
      (truthy (member data ''story'') \<longrightarrow> story pkg = member data ''story'') \<and>
      (truthy (member data ''keyframe_plan_titles'')
         \<longrightarrow> titles pkg = member data ''keyframe_plan_titles'') \<and>
      (array_or_empty (member data ''visualPrompts'') = [] \<longrightarrow> visualPrompts pkg = []) \<and>
      audioMap pkg = []) \<and>
   (\<forall>pkg. build_package eng input sd data = Inr pkg \<and>
          \<not> truthy (member data ''keyframe_plan_titles'')
      \<longrightarrow> titles pkg = JArr (map (\<lambda>p. member p ''label'') (visualPrompts pkg))) \<and>
   (\<forall>pkg. build_package_v31 eng input sd n data = Inr pkg \<and>
          \<not> truthy (member data ''keyframe_plan_titles'')
      \<longrightarrow> titles pkg = JArr (map (\<lambda>p. or_else (member p ''label'') (JStr (u16 ''Scene'')))
                                 (visualPrompts pkg)))"
proof -
  have e1: "build_package eng input sd (JObj []) =
     Inr \<lparr>metadata =
            \<lparr>md_topic = JStr (take 30 (script input)),
             md_mood = JStr (u16 ''Cinematic''),
             md_visualStyle = visualStyle input,
             md_aspectRatio = aspectRatio input,
             md_duration = videoDuration input\<rparr>,
          seo = default_seo, story = JStr (script input), titles = JArr [],
          visualPrompts = [], audioMap = [], cst = [], bst = [], gst = [],
          vst = preset_vst sd\<rparr>"
    by (simp add: build_package_def is_nullish_def or_else_def)
  have e2: "build_package_v31 eng input sd n (JObj []) =
     Inr \<lparr>metadata =
            \<lparr>md_topic = JStr (take 30 (script input)),
             md_mood = JStr (u16 ''Cinematic''),
             md_visualStyle = visualStyle input,
             md_aspectRatio = aspectRatio input,
             md_duration = videoDuration input\<rparr>,
          seo = default_seo, story = JStr (script input), titles = JArr [],
          visualPrompts = [], audioMap = [], cst = [], bst = [], gst = [],
          vst = preset_vst sd\<rparr>"
    by (simp add: build_package_v31_def is_nullish_def or_else_def)
  have g: "(\<not> truthy (opt_member (member data ''metadata'') ''topic'')
         \<longrightarrow> md_topic (metadata pkg) = JStr (take 30 (script input))) \<and>
      (truthy (opt_member (member data ''metadata'') ''topic'')
         \<longrightarrow> md_topic (metadata pkg) = opt_member (member data ''metadata'') ''topic'') \<and>
      (\<not> truthy (opt_member (member data ''metadata'') ''mood'')
         \<longrightarrow> md_mood (metadata pkg) = JStr (u16 ''Cinematic'')) \<and>
      (truthy (opt_member (member data ''metadata'') ''mood'')
         \<longrightarrow> md_mood (metadata pkg) = opt_member (member data ''metadata'') ''mood'') \<and>
      (\<not> truthy (member data ''seo'') \<longrightarrow> seo pkg = default_seo) \<and>
      (truthy (member data ''seo'') \<longrightarrow> seo pkg = member data ''seo'') \<and>
      (\<not> truthy (member data ''story'') \<longrightarrow> story pkg = JStr (script input)) \<and>
      (truthy (member data ''story'') \<longrightarrow> story pkg = member data ''story'') \<and>
      (truthy (member data ''keyframe_plan_titles'')
         \<longrightarrow> titles pkg = member data ''keyframe_plan_titles'') \<and>
      (array_or_empty (member data ''visualPrompts'') = [] \<longrightarrow> visualPrompts pkg = []) \<and>
      audioMap pkg = []"
    if "build_package eng input sd data = Inr pkg \<or>
        build_package_v31 eng input sd n data = Inr pkg" for pkg
  proof -
    from that have f: "md_topic (metadata pkg) =
          or_else (opt_member (member data ''metadata'') ''topic'')
                  (JStr (take 30 (script input)))"
        "md_mood (metadata pkg) =
          or_else (opt_member (member data ''metadata'') ''mood'') (JStr (u16 ''Cinematic''))"
        "seo pkg = or_else (member data ''seo'') default_seo"
        "story pkg = or_else (member data ''story'') (JStr (script input))"
        "audioMap pkg = []"
      using build_package_fields [of eng input sd data pkg]
        build_package_v31_fields [of eng input sd n data pkg] by blast+
    from that have t: "truthy (member data ''keyframe_plan_titles'')
         \<longrightarrow> titles pkg = member data ''keyframe_plan_titles''"
      using build_package_fields [of eng input sd data pkg]
        build_package_v31_fields [of eng input sd n data pkg]
        or_else_cases [of "member data ''keyframe_plan_titles''"] by metis
    from that have p: "array_or_empty (member data ''visualPrompts'') = [] \<longrightarrow> visualPrompts pkg = []"
      using build_package_prompts [of eng input sd data pkg]
        build_package_v31_prompts [of eng input sd n data pkg] by auto
    from f t p show ?thesis
      by (simp add: or_else_def)
  qed
  have t1: "titles pkg = JArr (map (\<lambda>p. member p ''label'') (visualPrompts pkg))"
    if "build_package eng input sd data = Inr pkg \<and>
        \<not> truthy (member data ''keyframe_plan_titles'')" for pkg
    using that build_package_fields [of eng input sd data pkg] by (simp add: or_else_def)
  have t2: "titles pkg = JArr (map (\<lambda>p. or_else (member p ''label'') (JStr (u16 ''Scene'')))
                                 (visualPrompts pkg))"
    if "build_package_v31 eng input sd n data = Inr pkg \<and>
        \<not> truthy (member data ''keyframe_plan_titles'')" for pkg
    using that build_package_v31_fields [of eng input sd n data pkg] by (simp add: or_else_def)
  from e1 e2 default_seo_members falsy_values g t1 t2 show ?thesis by blast
qed

text \<open>An instance: the completion \<^verbatim>\<open>{"metadata":{"topic":"","mood":"Dark"},"seo":0,"story":false}\<close>.
  The empty topic, the zero and \<^verbatim>\<open>false\<close> are replaced by the defaults, the mood is kept.\<close>

theorem C9_defaults_witness:
  "\<not> truthy (opt_member (member (JObj [(u16 ''metadata'', JObj [(u16 ''topic'', JStr []),
                                     (u16 ''mood'', JStr (u16 ''Dark''))]),
                (u16 ''seo'', JNum 0), (u16 ''story'', JBool False)]) ''metadata'') ''topic'') \<and>
   truthy (opt_member (member (JObj [(u16 ''metadata'', JObj [(u16 ''topic'', JStr []),
                                     (u16 ''mood'', JStr (u16 ''Dark''))]),
                (u16 ''seo'', JNum 0), (u16 ''story'', JBool False)]) ''metadata'') ''mood'') \<and>
   \<not> truthy (member (JObj [(u16 ''metadata'', JObj [(u16 ''topic'', JStr []),
                                     (u16 ''mood'', JStr (u16 ''Dark''))]),
                (u16 ''seo'', JNum 0), (u16 ''story'', JBool False)]) ''seo'') \<and>
   \<not> truthy (member (JObj [(u16 ''metadata'', JObj [(u16 ''topic'', JStr []),
                                     (u16 ''mood'', JStr (u16 ''Dark''))]),
                (u16 ''seo'', JNum 0), (u16 ''story'', JBool False)]) ''story'') \<and>
   map_sum id (\<lambda>p. (md_topic (metadata p), md_mood (metadata p), seo p, story p))
     (build_package \<lparr>apiKey = Some ''k'', null_read_message = (\<lambda>p. p), unicode_lower = (\<lambda>s. s),
        builtin_member = (\<lambda>name key. Read_falsy)\<rparr>
        \<lparr>script = u16 ''A script of more than thirty characters'', visualStyle = u16 ''Cyberpunk'',
         sceneDensity = Standard, aspectRatio = Ratio_16_9, characterDescription = [],
         videoDuration = ''1 Minute'', modelEngine = []\<rparr>
        None (JObj [(u16 ''metadata'', JObj [(u16 ''topic'', JStr []),
                                     (u16 ''mood'', JStr (u16 ''Dark''))]),
                (u16 ''seo'', JNum 0), (u16 ''story'', JBool False)])) =
     Inr (JStr (u16 ''A script of more than thirty c''), JStr (u16 ''Dark''), default_seo,
          JStr (u16 ''A script of more than thirty characters''))"
proof -
  let ?E = "\<lparr>apiKey = Some ''k'', null_read_message = (\<lambda>p. p), unicode_lower = (\<lambda>s. s),
        builtin_member = (\<lambda>name key. Read_falsy)\<rparr>"
  let ?I = "\<lparr>script = u16 ''A script of more than thirty characters'', visualStyle = u16 ''Cyberpunk'',
         sceneDensity = Standard, aspectRatio = Ratio_16_9, characterDescription = [],
         videoDuration = ''1 Minute'', modelEngine = []\<rparr>"
  let ?d = "JObj [(u16 ''metadata'', JObj [(u16 ''topic'', JStr []),
                                     (u16 ''mood'', JStr (u16 ''Dark''))]),
                (u16 ''seo'', JNum 0), (u16 ''story'', JBool False)]"
  have m1: "opt_member (member ?d ''metadata'') ''topic'' = JStr []" by code_simp
  have m2: "opt_member (member ?d ''metadata'') ''mood'' = JStr (u16 ''Dark'')" by code_simp
  have m3: "member ?d ''seo'' = JNum 0" by code_simp
  have m4: "member ?d ''story'' = JBool False" by code_simp
  have n1: "\<not> truthy (opt_member (member ?d ''metadata'') ''topic'')" unfolding m1 by simp
  have n2: "truthy (opt_member (member ?d ''metadata'') ''mood'')" unfolding m2 by simp
  have n3: "\<not> truthy (member ?d ''seo'')" unfolding m3 by simp
  have n4: "\<not> truthy (member ?d ''story'')" unfolding m4 by simp
  obtain pkg where b: "build_package ?E ?I None ?d = Inr pkg"
    by (simp add: build_package_def is_nullish_def)
  have s: "take 30 (script ?I) = u16 ''A script of more than thirty c''" by simp
  from C9_defaults [of ?E ?I None 8 ?d] b n1 n2 n3 n4
  have "md_topic (metadata pkg) = JStr (take 30 (script ?I)) \<and>
        md_mood (metadata pkg) = opt_member (member ?d ''metadata'') ''mood'' \<and>
        seo pkg = default_seo \<and> story pkg = JStr (script ?I)"
    by blast
  then have "md_topic (metadata pkg) = JStr (u16 ''A script of more than thirty c'') \<and>
        md_mood (metadata pkg) = JStr (u16 ''Dark'') \<and>
        seo pkg = default_seo \<and>
        story pkg = JStr (u16 ''A script of more than thirty characters'')"
    unfolding m2 s by simp
  with b n1 n2 n3 n4 show ?thesis by simp
qed

section \<open>Fields that come from the request\<close>

text \<open>In every package that is returned, the style, ratio and duration of the metadata and
  the four continuity tokens are written from the request and the resolved preset alone.
  For v3.1 this holds through every retry, by induction on the calls.\<close>

lemma build_package_request_fields:
  "build_package eng input sd data = Inr pkg \<Longrightarrow>
   md_visualStyle (metadata pkg) = visualStyle input \<and>
   md_aspectRatio (metadata pkg) = aspectRatio input \<and>
   md_duration (metadata pkg) = videoDuration input \<and>
   cst pkg = [] \<and> bst pkg = [] \<and> gst pkg = [] \<and> vst pkg = preset_vst sd"
  by (auto simp: build_package_def Let_def split: if_splits)

lemma build_package_v31_request_fields:
  "build_package_v31 eng input sd n data = Inr pkg \<Longrightarrow>
   md_visualStyle (metadata pkg) = visualStyle input \<and>
   md_aspectRatio (metadata pkg) = aspectRatio input \<and>
   md_duration (metadata pkg) = videoDuration input \<and>
   cst pkg = [] \<and> bst pkg = [] \<and> gst pkg = [] \<and> vst pkg = preset_vst sd"
  by (auto simp: build_package_v31_def Let_def split: if_splits)

lemma generateMoviePackage_request_fields:
  assumes "generateMoviePackage eng reply input = Inr pkg"
  shows "md_visualStyle (metadata pkg) = visualStyle input \<and>
   md_aspectRatio (metadata pkg) = aspectRatio input \<and>
   md_duration (metadata pkg) = videoDuration input \<and>
   cst pkg = [] \<and> bst pkg = [] \<and> gst pkg = [] \<and>
   vst pkg = preset_vst (resolve_style (visualStyle input))"
proof -
  from assms obtain data where
    "build_package eng input (resolve_style (visualStyle input)) data = Inr pkg"
    by (auto simp: generateMoviePackage_def package_from_def
             split: if_splits api_reply.splits sum.splits)
  then show ?thesis by (rule build_package_request_fields)
qed

lemma attempt_v31_request_fields:
  assumes "attempt_v31 eng reply input n = Returned pkg"
  shows "md_visualStyle (metadata pkg) = visualStyle input \<and>
   md_aspectRatio (metadata pkg) = aspectRatio input \<and>
   md_duration (metadata pkg) = videoDuration input \<and>
   cst pkg = [] \<and> bst pkg = [] \<and> gst pkg = [] \<and>
   vst pkg = preset_vst (resolve_style (visualStyle input))"
proof -
  from assms obtain data where
    "build_package_v31 eng input (resolve_style (visualStyle input)) (keyframeTotal_v31 eng input) data = Inr pkg"
    by (auto simp: attempt_v31_def split: if_splits api_reply.splits sum.splits option.splits)
  then show ?thesis by (rule build_package_v31_request_fields)
qed

lemma generateMoviePackage_v31_request_fields:
  "generateMoviePackage_v31 eng replies input n = Inr pkg \<Longrightarrow>
   md_visualStyle (metadata pkg) = visualStyle input \<and>
   md_aspectRatio (metadata pkg) = aspectRatio input \<and>
   md_duration (metadata pkg) = videoDuration input \<and>
   cst pkg = [] \<and> bst pkg = [] \<and> gst pkg = [] \<and>
   vst pkg = preset_vst (resolve_style (visualStyle input))"
proof (induction eng replies input n rule: generateMoviePackage_v31.induct)
  case (1 eng replies input retryCount)
  from "1.prems" have key: "\<not> no_api_key eng"
    by (subst (asm) generateMoviePackage_v31.simps) (simp split: if_splits)
  show ?case
  proof (cases "attempt_v31 eng (replies retryCount) input retryCount")
    case (Returned p)
    with "1.prems" key have "p = pkg"
      by (subst (asm) generateMoviePackage_v31.simps) simp
    with Returned show ?thesis by (auto dest: attempt_v31_request_fields)
  next
    case RetryAfterParseError
    with "1.prems" key
    have "generateMoviePackage_v31 eng replies input (retryCount + 1) = Inr pkg"
      by (subst (asm) generateMoviePackage_v31.simps) simp
    with "1.IH"(1) [OF key RetryAfterParseError] show ?thesis by blast
  next
    case (Threw m)
    with "1.prems" key
    have q: "quota_error m \<and> retryCount < 5"
      and g: "generateMoviePackage_v31 eng replies input (retryCount + 1) = Inr pkg"
      by (subst (asm) generateMoviePackage_v31.simps, simp split: if_splits)+
    with "1.IH"(2) [OF key Threw] show ?thesis by blast
  qed
qed

text \<open>What the style of a request resolves to. The names of the table are distinct, and none
  of them is a name inherited from \<^verbatim>\<open>Object.prototype\<close>.\<close>

lemma preset_names_distinct: "distinct (map fst VISUAL_STYLE_PRESETS)"
  unfolding VISUAL_STYLE_PRESETS_def by simp

lemma inherited_names_no_presets:
  "list_all (\<lambda>k. map_of VISUAL_STYLE_PRESETS k = None) (map u16 object_prototype_keys)"
  by code_simp

lemma studio_ghibli_preset:
  "map_option recommended_vst (map_of VISUAL_STYLE_PRESETS (u16 ''Studio Ghibli'')) =
     Some ''VST_08 Soft Pastel Dream''"
  by code_simp

lemma resolve_style_own:
  assumes "(name, p) \<in> set VISUAL_STYLE_PRESETS"
  shows "resolve_style name = Some p"
proof -
  from preset_names_distinct assms have "map_of VISUAL_STYLE_PRESETS name = Some p"
    by (rule map_of_is_SomeI)
  then show ?thesis by (simp add: resolve_style_def get_property_def)
qed

lemma resolve_style_fallback:
  assumes "name \<notin> fst ` set VISUAL_STYLE_PRESETS" and "name \<notin> set (map u16 object_prototype_keys)"
  shows "preset_vst (resolve_style name) = JStr (u16 ''VST_08 Soft Pastel Dream'')"
proof -
  from assms(1) have "map_of VISUAL_STYLE_PRESETS name = None" by (simp add: map_of_eq_None_iff)
  with assms(2) have "resolve_style name = map_of VISUAL_STYLE_PRESETS (u16 ''Studio Ghibli'')"
    by (simp add: resolve_style_def get_property_def)
  with studio_ghibli_preset show ?thesis by (auto simp: preset_vst_def)
qed

lemma resolve_style_inherited:
  assumes "name \<in> set (map u16 object_prototype_keys)"
  shows "preset_vst (resolve_style name) = JUndefined"
proof -
  from inherited_names_no_presets assms have "map_of VISUAL_STYLE_PRESETS name = None"
    unfolding list_all_iff by blast
  with assms show ?thesis by (simp add: resolve_style_def get_property_def preset_vst_def)
qed

text \<open>
  C10. Take any two runs for the same request, whatever the environment, the replies of
  the model and, in v3.1, the retry counters: if both return a package, the two packages
  agree on \<^verbatim>\<open>metadata.visualStyle\<close>, \<^verbatim>\<open>metadata.aspectRatio\<close>, \<^verbatim>\<open>metadata.duration\<close>, \<^verbatim>\<open>cst\<close>, \<^verbatim>\<open>bst\<close>,
  \<^verbatim>\<open>gst\<close> and \<^verbatim>\<open>vst\<close>. The first three are the request's values, \<^verbatim>\<open>cst\<close>, \<^verbatim>\<open>bst\<close> and \<^verbatim>\<open>gst\<close> are
  the empty string, and \<^verbatim>\<open>vst\<close> is the \<^verbatim>\<open>recommended_vst\<close> of what the request's style
  resolves to: the preset of that name when the style is one of the sixteen names of the
  table, the preset \<^verbatim>\<open>Studio Ghibli\<close> for any other name that is not inherited from
  \<^verbatim>\<open>Object.prototype\<close>, and for an inherited name a built-in without that field, so
  \<^verbatim>\<open>undefined\<close>.
\<close>

theorem C10_fields_from_request_only:
  "(generateMoviePackage eng1 reply1 input = Inr p1 \<and>
    generateMoviePackage eng2 reply2 input = Inr p2 \<longrightarrow>
      md_visualStyle (metadata p1) = md_visualStyle (metadata p2) \<and>
      md_aspectRatio (metadata p1) = md_aspectRatio (metadata p2) \<and>
      md_duration (metadata p1) = md_duration (metadata p2) \<and>
      cst p1 = cst p2 \<and> bst p1 = bst p2 \<and> gst p1 = gst p2 \<and> vst p1 = vst p2 \<and>
      md_visualStyle (metadata p1) = visualStyle input \<and>
      md_aspectRatio (metadata p1) = aspectRatio input \<and>
      md_duration (metadata p1) = videoDuration input \<and>
      cst p1 = [] \<and> bst p1 = [] \<and> gst p1 = [] \<and>
      vst p1 = preset_vst (resolve_style (visualStyle input))) \<and>
   (generateMoviePackage_v31 eng3 replies3 input n3 = Inr p3 \<and>
    generateMoviePackage_v31 eng4 replies4 input n4 = Inr p4 \<longrightarrow>
      md_visualStyle (metadata p3) = md_visualStyle (metadata p4) \<and>
      md_aspectRatio (metadata p3) = md_aspectRatio (metadata p4) \<and>
      md_duration (metadata p3) = md_duration (metadata p4) \<and>
      cst p3 = cst p4 \<and> bst p3 = bst p4 \<and> gst p3 = gst p4 \<and> vst p3 = vst p4 \<and>
      md_visualStyle (metadata p3) = visualStyle input \<and>
      md_aspectRatio (metadata p3) = aspectRatio input \<and>
      md_duration (metadata p3) = videoDuration input \<and>
      cst p3 = [] \<and> bst p3 = [] \<and> gst p3 = [] \<and>
      vst p3 = preset_vst (resolve_style (visualStyle input))) \<and>
   ((visualStyle input, preset) \<in> set VISUAL_STYLE_PRESETS \<longrightarrow>
      preset_vst (resolve_style (visualStyle input)) = JStr (u16 (recommended_vst preset))) \<and>
   (visualStyle input \<notin> fst ` set VISUAL_STYLE_PRESETS \<and>
    visualStyle input \<notin> set (map u16 object_prototype_keys) \<longrightarrow>
      preset_vst (resolve_style (visualStyle input)) = JStr (u16 ''VST_08 Soft Pastel Dream'')) \<and>
   (visualStyle input \<in> set (map u16 object_prototype_keys) \<longrightarrow>
      preset_vst (resolve_style (visualStyle input)) = JUndefined)"
proof (intro conjI impI)
  assume a: "generateMoviePackage eng1 reply1 input = Inr p1 \<and>
    generateMoviePackage eng2 reply2 input = Inr p2"
  note f1 = generateMoviePackage_request_fields [of eng1 reply1 input p1]
  note f2 = generateMoviePackage_request_fields [of eng2 reply2 input p2]
  from a f1 f2 show "md_visualStyle (metadata p1) = md_visualStyle (metadata p2)" by simp
  from a f1 f2 show "md_aspectRatio (metadata p1) = md_aspectRatio (metadata p2)" by simp
  from a f1 f2 show "md_duration (metadata p1) = md_duration (metadata p2)" by simp
  from a f1 f2 show "cst p1 = cst p2" by simp
  from a f1 f2 show "bst p1 = bst p2" by simp
  from a f1 f2 show "gst p1 = gst p2" by simp
  from a f1 f2 show "vst p1 = vst p2" by simp
  from a f1 show "md_visualStyle (metadata p1) = visualStyle input" by simp
  from a f1 show "md_aspectRatio (metadata p1) = aspectRatio input" by simp
  from a f1 show "md_duration (metadata p1) = videoDuration input" by simp
  from a f1 show "cst p1 = []" by simp
  from a f1 show "bst p1 = []" by simp
  from a f1 show "gst p1 = []" by simp
  from a f1 show "vst p1 = preset_vst (resolve_style (visualStyle input))" by simp
next
  assume a: "generateMoviePackage_v31 eng3 replies3 input n3 = Inr p3 \<and>
    generateMoviePackage_v31 eng4 replies4 input n4 = Inr p4"
  note f1 = generateMoviePackage_v31_request_fields [of eng3 replies3 input n3 p3]
  note f2 = generateMoviePackage_v31_request_fields [of eng4 replies4 input n4 p4]
  from a f1 f2 show "md_visualStyle (metadata p3) = md_visualStyle (metadata p4)" by simp
  from a f1 f2 show "md_aspectRatio (metadata p3) = md_aspectRatio (metadata p4)" by simp
  from a f1 f2 show "md_duration (metadata p3) = md_duration (metadata p4)" by simp
  from a f1 f2 show "cst p3 = cst p4" by simp
  from a f1 f2 show "bst p3 = bst p4" by simp
  from a f1 f2 show "gst p3 = gst p4" by simp
  from a f1 f2 show "vst p3 = vst p4" by simp
  from a f1 show "md_visualStyle (metadata p3) = visualStyle input" by simp
  from a f1 show "md_aspectRatio (metadata p3) = aspectRatio input" by simp
  from a f1 show "md_duration (metadata p3) = videoDuration input" by simp
  from a f1 show "cst p3 = []" by simp
  from a f1 show "bst p3 = []" by simp
  from a f1 show "gst p3 = []" by simp
  from a f1 show "vst p3 = preset_vst (resolve_style (visualStyle input))" by simp
next
  assume "(visualStyle input, preset) \<in> set VISUAL_STYLE_PRESETS"
  then show "preset_vst (resolve_style (visualStyle input)) = JStr (u16 (recommended_vst preset))"
    by (simp add: resolve_style_own preset_vst_def)
next
  assume "visualStyle input \<notin> fst ` set VISUAL_STYLE_PRESETS \<and>
    visualStyle input \<notin> set (map u16 object_prototype_keys)"
  then show "preset_vst (resolve_style (visualStyle input)) = JStr (u16 ''VST_08 Soft Pastel Dream'')"
    using resolve_style_fallback by blast
next
  assume "visualStyle input \<in> set (map u16 object_prototype_keys)"
  then show "preset_vst (resolve_style (visualStyle input)) = JUndefined"
    by (rule resolve_style_inherited)
qed

text \<open>An instance: the style \<^verbatim>\<open>Stickman - Blueprint\<close>, written with the dash U+2014, and two
  different completions.\<close>

lemma blueprint_preset:
  "(u16 ''Stickman '' @ [0x2014] @ u16 '' Blueprint'',
    \<lparr>image_style = ''blueprint schematic style, cyan grid, white technical line drawings'',
     video_style = ''blueprint line-reveal animation, technical callout pop-ins'',
     recommended_vst = ''VST_14 Matte Minimalist''\<rparr>) \<in> set VISUAL_STYLE_PRESETS"
  unfolding VISUAL_STYLE_PRESETS_def by simp

theorem C10_fields_from_request_only_witness:
  \<open>\<exists>p1 p2 p3 p4.
     generateMoviePackage \<lparr>apiKey = Some ''k'', null_read_message = (\<lambda>p. p), unicode_lower = (\<lambda>s. s),
        builtin_member = (\<lambda>name key. Read_falsy)\<rparr>
       (Replies (Some ''{}''))
       \<lparr>script = u16 ''s'', visualStyle = u16 ''Stickman '' @ [0x2014] @ u16 '' Blueprint'',
        sceneDensity = Standard, aspectRatio = Ratio_16_9, characterDescription = [],
        videoDuration = ''1 Minute'', modelEngine = []\<rparr> = Inr p1 \<and>
     generateMoviePackage \<lparr>apiKey = Some ''k'', null_read_message = (\<lambda>p. p), unicode_lower = (\<lambda>s. s),
        builtin_member = (\<lambda>name key. Read_falsy)\<rparr>
       (Replies (Some ''{"story":"x"}''))
       \<lparr>script = u16 ''s'', visualStyle = u16 ''Stickman '' @ [0x2014] @ u16 '' Blueprint'',
        sceneDensity = Standard, aspectRatio = Ratio_16_9, characterDescription = [],
        videoDuration = ''1 Minute'', modelEngine = []\<rparr> = Inr p2 \<and>
     generateMoviePackage_v31 \<lparr>apiKey = Some ''k'', null_read_message = (\<lambda>p. p), unicode_lower = (\<lambda>s. s),
        builtin_member = (\<lambda>name key. Read_falsy)\<rparr>
       (\<lambda>n. Replies (Some ''{}''))
       \<lparr>script = u16 ''s'', visualStyle = u16 ''Stickman '' @ [0x2014] @ u16 '' Blueprint'',
        sceneDensity = Standard, aspectRatio = Ratio_16_9, characterDescription = [],
        videoDuration = ''1 Minute'', modelEngine = []\<rparr> 0 = Inr p3 \<and>
     generateMoviePackage_v31 \<lparr>apiKey = Some ''k'', null_read_message = (\<lambda>p. p), unicode_lower = (\<lambda>s. s),
        builtin_member = (\<lambda>name key. Read_falsy)\<rparr>
       (\<lambda>n. Replies (Some ''{"story":"x"}''))
       \<lparr>script = u16 ''s'', visualStyle = u16 ''Stickman '' @ [0x2014] @ u16 '' Blueprint'',
        sceneDensity = Standard, aspectRatio = Ratio_16_9, characterDescription = [],
        videoDuration = ''1 Minute'', modelEngine = []\<rparr> 0 = Inr p4 \<and>
     story p1 \<noteq> story p2 \<and> story p3 \<noteq> story p4 \<and>
     vst p1 = vst p2 \<and> vst p3 = vst p4 \<and>
     vst p1 = JStr (u16 ''VST_14 Matte Minimalist'') \<and>
     vst p3 = JStr (u16 ''VST_14 Matte Minimalist'') \<and>
     cst p1 = [] \<and> cst p3 = [] \<and>
     md_visualStyle (metadata p1) = u16 ''Stickman '' @ [0x2014] @ u16 '' Blueprint'' \<and>
     md_duration (metadata p3) = ''1 Minute''\<close>
proof -
  let ?E = "\<lparr>apiKey = Some ''k'', null_read_message = (\<lambda>p. p), unicode_lower = (\<lambda>s. s),
        builtin_member = (\<lambda>name key. Read_falsy)\<rparr>"
  let ?I = "\<lparr>script = u16 ''s'', visualStyle = u16 ''Stickman '' @ [0x2014] @ u16 '' Blueprint'',
        sceneDensity = Standard, aspectRatio = Ratio_16_9, characterDescription = [],
        videoDuration = ''1 Minute'', modelEngine = []\<rparr>"
  let ?P = "\<lparr>image_style = ''blueprint schematic style, cyan grid, white technical line drawings'',
     video_style = ''blueprint line-reveal animation, technical callout pop-ins'',
     recommended_vst = ''VST_14 Matte Minimalist''\<rparr>"
  have k: "\<not> no_api_key ?E" by (simp add: no_api_key_def)
  have j1: \<open>json_parse (cleanJsonString (Some ''{}'')) = Some (JObj [])\<close> by code_simp
  have j2: \<open>json_parse (cleanJsonString (Some ''{"story":"x"}'')) =
              Some (JObj [(u16 ''story'', JStr (u16 ''x''))])\<close> by code_simp
  have j3: \<open>json_parse (cleanJsonString_v31 (Some ''{}'')) = Some (JObj [])\<close> by code_simp
  have j4: \<open>json_parse (cleanJsonString_v31 (Some ''{"story":"x"}'')) =
              Some (JObj [(u16 ''story'', JStr (u16 ''x''))])\<close> by code_simp
  obtain p1 where p1: \<open>generateMoviePackage ?E (Replies (Some ''{}'')) ?I = Inr p1\<close>
    and s1: "story p1 = JStr (u16 ''s'')"
    using k j1
    by (simp add: generateMoviePackage_def parse_with_retry_def package_from_def
          build_package_def is_nullish_def or_else_def)
  obtain p2 where p2: \<open>generateMoviePackage ?E (Replies (Some ''{"story":"x"}'')) ?I = Inr p2\<close>
    and s2: "story p2 = JStr (u16 ''x'')"
    using k j2
    by (simp add: generateMoviePackage_def parse_with_retry_def package_from_def
          build_package_def is_nullish_def or_else_def)
  have \<open>\<exists>p. generateMoviePackage_v31 ?E (\<lambda>n. Replies (Some ''{}'')) ?I 0 = Inr p \<and>
             story p = JStr (u16 ''s'')\<close>
    using k j3
    by (subst generateMoviePackage_v31.simps)
       (simp add: attempt_v31_def build_package_v31_def is_nullish_def or_else_def)
  then obtain p3 where p3: \<open>generateMoviePackage_v31 ?E (\<lambda>n. Replies (Some ''{}'')) ?I 0 = Inr p3\<close>
    and s3: "story p3 = JStr (u16 ''s'')" by blast
  have \<open>\<exists>p. generateMoviePackage_v31 ?E (\<lambda>n. Replies (Some ''{"story":"x"}'')) ?I 0 = Inr p \<and>
             story p = JStr (u16 ''x'')\<close>
    using k j4
    by (subst generateMoviePackage_v31.simps)
       (simp add: attempt_v31_def build_package_v31_def is_nullish_def or_else_def)
  then obtain p4 where p4: \<open>generateMoviePackage_v31 ?E (\<lambda>n. Replies (Some ''{"story":"x"}'')) ?I 0 = Inr p4\<close>
    and s4: "story p4 = JStr (u16 ''x'')" by blast
  have vs: "visualStyle ?I = u16 ''Stickman '' @ [0x2014] @ u16 '' Blueprint''"
    and vd: "videoDuration ?I = ''1 Minute''"
    by simp_all
  have own: "(visualStyle ?I, ?P) \<in> set VISUAL_STYLE_PRESETS"
    unfolding vs by (rule blueprint_preset)
  have rv: "recommended_vst ?P = ''VST_14 Matte Minimalist''" by simp
  note T = C10_fields_from_request_only
         [of ?E \<open>Replies (Some ''{}'')\<close> ?I p1 ?E \<open>Replies (Some ''{"story":"x"}'')\<close> p2
             ?E \<open>\<lambda>n. Replies (Some ''{}'')\<close> 0 p3 ?E \<open>\<lambda>n. Replies (Some ''{"story":"x"}'')\<close> 0 p4 ?P]
  from T own have "preset_vst (resolve_style (visualStyle ?I)) = JStr (u16 (recommended_vst ?P))"
    by blast
  then have pv: "preset_vst (resolve_style (visualStyle ?I)) = JStr (u16 ''VST_14 Matte Minimalist'')"
    unfolding rv .
  from T p1 p2 have c12: "vst p1 = vst p2 \<and>
        vst p1 = preset_vst (resolve_style (visualStyle ?I)) \<and> cst p1 = [] \<and>
        md_visualStyle (metadata p1) = visualStyle ?I"
    by blast
  from T p3 p4 have c34: "vst p3 = vst p4 \<and>
        vst p3 = preset_vst (resolve_style (visualStyle ?I)) \<and> cst p3 = [] \<and>
        md_duration (metadata p3) = videoDuration ?I"
    by blast
  from c12 have q1: "vst p1 = vst p2" and q3: "cst p1 = []" by blast+
  from c12 have "vst p1 = preset_vst (resolve_style (visualStyle ?I))" by blast
  also note pv
  finally have q2: "vst p1 = JStr (u16 ''VST_14 Matte Minimalist'')" .
  from c12 have "md_visualStyle (metadata p1) = visualStyle ?I" by blast
  also note vs
  finally have q4: "md_visualStyle (metadata p1) =
      u16 ''Stickman '' @ [0x2014] @ u16 '' Blueprint''" .
  from c34 have r1: "vst p3 = vst p4" and r3: "cst p3 = []" by blast+
  from c34 have "vst p3 = preset_vst (resolve_style (visualStyle ?I))" by blast
  also note pv
  finally have r2: "vst p3 = JStr (u16 ''VST_14 Matte Minimalist'')" .
  from c34 have "md_duration (metadata p3) = videoDuration ?I" by blast
  also note vd
  finally have r4: "md_duration (metadata p3) = ''1 Minute''" .
  have d12: "story p1 \<noteq> story p2" unfolding s1 s2 by simp
  have d34: "story p3 \<noteq> story p4" unfolding s3 s4 by simp
  from p1 p2 p3 p4 d12 d34 q1 r1 q2 r2 q3 r3 q4 r4 show ?thesis by blast
qed

section \<open>Valid JSON in the repair engine\<close>


lemma nobj_nonneg: "0 \<le> nobj stk" by (induction stk rule: nobj.induct) auto
lemma narr_nonneg: "0 \<le> narr stk" by (induction stk rule: narr.induct) auto



lemma unescape_cases: "unescape e = Some u \<Longrightarrow>
   e = CHR 0x22 \<or> e = CHR 0x5C \<or> e \<in> {CHR ''/'', CHR ''b'', CHR ''f'', CHR ''n'', CHR ''r'', CHR ''t''}"
  by (auto simp: unescape_def split: if_splits)























text \<open>The single steps of the loop of v3.1.\<close>

declare scan_v31.simps [simp del]

















lemma nonempty_counts: "stk \<noteq> [] \<Longrightarrow> \<not> (nobj stk = 0 \<and> narr stk = 0)"
proof (cases stk)
  case Nil
  assume "stk \<noteq> []"
  with Nil show ?thesis by simp
next
  case (Cons f stk')
  show ?thesis using Cons nobj_nonneg [of stk'] narr_nonneg [of stk'] by (cases f) auto
qed

lemma empty_counts: "nobj stk = 0 \<and> narr stk = 0 \<Longrightarrow> stk = []"
  using nonempty_counts by blast













end
